theory Spec2Isabelle
  imports Complex_Main "HOL-Library.AList"
begin


section \<open>Python values shared by both programs\<close>

text \<open>
  The repository holds two Tkinter programs over SQLite: the single-file
  \<^verbatim>\<open>codigo_dental_final.py\<close> and \<^verbatim>\<open>sistema_odontologico.py\<close>.
  A Python \<^verbatim>\<open>str\<close> is a list of code points; the model keeps the code points
  below 256, one \<^typ>\<open>char\<close> each (so the letter o-acute of "Restauracion" is
  \<open>CHR 0xF3\<close>). A \<^verbatim>\<open>dict\<close> is an association list in insertion order whose
  keys are pairwise different; assignment to a key is \<^const>\<open>AList.update\<close>
  (overwrite in place, or append).
\<close>

datatype py_error =
  ValueError | KeyError | IndexError | ZeroDivisionError | OverflowError | OperationalError

definition py_dict :: "('k \<times> 'v) list \<Rightarrow> bool" where
  "py_dict d = distinct (map fst d)"

text \<open>\<^verbatim>\<open>d.get(k, dflt)\<close>\<close>

definition dict_get :: "('k \<times> 'v) list \<Rightarrow> 'k \<Rightarrow> 'v \<Rightarrow> 'v" where
  "dict_get d k dflt = (case map_of d k of None \<Rightarrow> dflt | Some v \<Rightarrow> v)"

text \<open>\<^verbatim>\<open>xs.index(x)\<close>: the first position of \<open>x\<close>; \<open>None\<close> is the ValueError.\<close>

fun list_index :: "'a list \<Rightarrow> 'a \<Rightarrow> nat option" where
  "list_index [] x = None"
| "list_index (y # ys) x = (if y = x then Some 0 else map_option Suc (list_index ys x))"

text \<open>\<^verbatim>\<open>if not self.patient_id\<close>: \<^verbatim>\<open>None\<close> and \<open>0\<close> are falsy.\<close>

definition truthy :: "int option \<Rightarrow> bool" where
  "truthy p = (case p of None \<Rightarrow> False | Some n \<Rightarrow> n \<noteq> 0)"

section \<open>codigo\_dental\_final.py: the odontogram tab\<close>

type_synonym pieza = string
type_synonym cara = string
type_synonym estado = string

text \<open>\<^verbatim>\<open>self.data\<close>: \<^verbatim>\<open>{pieza: {cara: estado}}\<close>\<close>

type_synonym odonto_data = "(pieza \<times> (cara \<times> estado) list) list"

definition ODONTO_STATES :: "estado list" where
  "ODONTO_STATES =
     [''Sano'', ''Caries'', ''Restauraci'' @ [CHR 0xF3] @ ''n'', ''Ausente'', ''Implante'']"

definition ODONTO_COLORS :: "(estado \<times> string) list" where
  "ODONTO_COLORS =
     [(''Sano'', ''#A7F3D0''),
      (''Caries'', ''#FCA5A5''),
      (''Restauraci'' @ [CHR 0xF3] @ ''n'', ''#93C5FD''),
      (''Ausente'', ''#E5E7EB''),
      (''Implante'', ''#FDE68A'')]"

definition SURFACES :: "cara list" where
  "SURFACES = [''O'', ''M'', ''D'', ''B'', ''L'']"

definition ADULTO_PIEZAS :: "pieza list" where
  "ADULTO_PIEZAS =
     [''18'', ''17'', ''16'', ''15'', ''14'', ''13'', ''12'', ''11'',
      ''21'', ''22'', ''23'', ''24'', ''25'', ''26'', ''27'', ''28'',
      ''48'', ''47'', ''46'', ''45'', ''44'', ''43'', ''42'', ''41'',
      ''31'', ''32'', ''33'', ''34'', ''35'', ''36'', ''37'', ''38'']"

definition TEMPORAL_PIEZAS :: "pieza list" where
  "TEMPORAL_PIEZAS =
     [''55'', ''54'', ''53'', ''52'', ''51'', ''61'', ''62'', ''63'', ''64'', ''65'',
      ''85'', ''84'', ''83'', ''82'', ''81'', ''71'', ''72'', ''73'', ''74'', ''75'']"

text \<open>
  The fields of \<^verbatim>\<open>OdontogramTab\<close> that the operations below read and write.
\<close>

record odontogram_tab =
  patient_id :: "int option"
  esquema :: string
  data :: odonto_data

text \<open>\<^verbatim>\<open>_grid_piezas\<close>\<close>

definition grid_piezas :: "odontogram_tab \<Rightarrow> pieza list" where
  "grid_piezas self = (if esquema self = ''adulto'' then ADULTO_PIEZAS else TEMPORAL_PIEZAS)"

text \<open>
  The status of a surface as \<^verbatim>\<open>_draw\<close> and \<^verbatim>\<open>on_click\<close> read it:
  \<^verbatim>\<open>self.data.get(pieza, {}).get(cara, "Sano")\<close>.
\<close>

definition get_status :: "odonto_data \<Rightarrow> pieza \<Rightarrow> cara \<Rightarrow> estado" where
  "get_status d pieza cara = dict_get (dict_get d pieza []) cara ''Sano''"

text \<open>
  \<^verbatim>\<open>on_click\<close>. The argument \<open>hit\<close> is \<^verbatim>\<open>self.rect_index\<close> at the canvas item
  closest to the click: \<open>None\<close> when that item is no surface rectangle. The result is the
  tab and the fill colour given to the rectangle (\<open>None\<close> when nothing is painted);
  \<open>Inl\<close> is an exception that leaves the handler.
\<close>

definition on_click ::
  "odontogram_tab \<Rightarrow> (pieza \<times> cara) option \<Rightarrow> py_error + odontogram_tab \<times> string option" where
  "on_click self hit =
     (if \<not> truthy (patient_id self) then Inr (self, None)
      else case hit of
        None \<Rightarrow> Inr (self, None)
      | Some (pieza, cara) \<Rightarrow>
          (let current_state = dict_get (dict_get (data self) pieza []) cara ''Sano'' in
           case list_index ODONTO_STATES current_state of
             None \<Rightarrow> Inl ValueError
           | Some current_idx \<Rightarrow>
               (let next_idx = (current_idx + 1) mod length ODONTO_STATES;
                    next_state = ODONTO_STATES ! next_idx;
                    d1 = (if pieza \<notin> fst ` set (data self)
                          then AList.update pieza [] (data self) else data self);
                    d2 = AList.update pieza
                           (AList.update cara next_state (dict_get d1 pieza [])) d1
                in case map_of ODONTO_COLORS next_state of
                     None \<Rightarrow> Inl KeyError
                   | Some colour \<Rightarrow> Inr (self\<lparr>data := d2\<rparr>, Some colour))))"

text \<open>The same surface clicked \<open>n\<close> times in a row.\<close>

fun click_times :: "nat \<Rightarrow> odontogram_tab \<Rightarrow> pieza \<times> cara \<Rightarrow> py_error + odontogram_tab" where
  "click_times 0 self hit = Inr self"
| "click_times (Suc n) self hit =
     (case on_click self (Some hit) of
        Inl e \<Rightarrow> Inl e
      | Inr (self', _) \<Rightarrow> click_times n self' hit)"

text \<open>
  The cyclic order as the specification words it: Healthy, Decayed, Restored, Missing,
  Implant, and back to Healthy.
\<close>

definition spec_next_status :: "estado \<Rightarrow> estado" where
  "spec_next_status s =
     (if s = ''Sano'' then ''Caries''
      else if s = ''Caries'' then ''Restauraci'' @ [CHR 0xF3] @ ''n''
      else if s = ''Restauraci'' @ [CHR 0xF3] @ ''n'' then ''Ausente''
      else if s = ''Ausente'' then ''Implante''
      else if s = ''Implante'' then ''Sano''
      else s)"

subsection \<open>The odontogram table and the JSON column\<close>

text \<open>
  \<^verbatim>\<open>json.dumps(self.data)\<close> writes an object whose members are the dictionary's items in
  their order, each value an object of strings in turn. The document is modelled by its
  member lists. \<^verbatim>\<open>json.loads\<close> builds the dictionaries again by inserting the members
  one after the other, so a repeated key keeps its first place and its last value.
\<close>

datatype json_chart = JsonChart "(string \<times> (string \<times> string) list) list"

definition dict_of_items :: "('k \<times> 'v) list \<Rightarrow> ('k \<times> 'v) list" where
  "dict_of_items kvs = foldl (\<lambda>d (k, v). AList.update k v d) [] kvs"

definition json_dumps :: "odonto_data \<Rightarrow> json_chart" where
  "json_dumps d = JsonChart d"

fun json_loads :: "json_chart \<Rightarrow> odonto_data" where
  "json_loads (JsonChart members) =
     dict_of_items (map (\<lambda>(k, vs). (k, dict_of_items vs)) members)"

text \<open>
  \<^verbatim>\<open>init_db\<close> creates
  \<^verbatim>\<open>odontogram(patient_id INTEGER PRIMARY KEY, esquema TEXT, data_json TEXT)\<close>:
  the table is a list of rows keyed by \<^verbatim>\<open>patient_id\<close>, and the primary key is
  \<^const>\<open>py_dict\<close> of the table.
\<close>

type_synonym odontogram_table = "(int \<times> string \<times> json_chart) list"

text \<open>
  \<^verbatim>\<open>save\<close>: without a patient only a warning is shown. Otherwise
  \<^verbatim>\<open>INSERT ... ON CONFLICT(patient_id) DO UPDATE SET esquema=excluded.esquema,
  data_json=excluded.data_json\<close>: the patient's row is overwritten in place, or appended.
\<close>

definition save :: "odontogram_tab \<Rightarrow> odontogram_table \<Rightarrow> odontogram_table" where
  "save self tbl =
     (case patient_id self of
        None \<Rightarrow> tbl
      | Some pid \<Rightarrow>
          if pid = 0 then tbl
          else AList.update pid (esquema self, json_dumps (data self)) tbl)"

text \<open>
  \<^verbatim>\<open>load\<close>: \<^verbatim>\<open>self.data.clear()\<close>, then for a selected patient
  \<^verbatim>\<open>SELECT esquema, data_json FROM odontogram WHERE patient_id=?\<close> and, when a row is
  found, both the scheme selector and the working copy are set from it.
\<close>

definition load :: "odontogram_tab \<Rightarrow> odontogram_table \<Rightarrow> odontogram_tab" where
  "load self tbl =
     (let self1 = self\<lparr>data := []\<rparr> in
      case patient_id self of
        None \<Rightarrow> self1
      | Some pid \<Rightarrow>
          if pid = 0 then self1
          else (case map_of tbl pid of
                  None \<Rightarrow> self1
                | Some (esq, data_json) \<Rightarrow>
                    self1\<lparr>esquema := esq, data := json_loads data_json\<rparr>))"

text \<open>
  The specification speaks of one snapshot per patient and scheme. That reading of the
  table is the query
  \<^verbatim>\<open>SELECT data_json FROM odontogram WHERE patient_id=? AND esquema=?\<close>.
\<close>

definition stored_snapshot :: "odontogram_table \<Rightarrow> int \<Rightarrow> string \<Rightarrow> json_chart option" where
  "stored_snapshot tbl pid scheme =
     (case map_of tbl pid of
        None \<Rightarrow> None
      | Some (esq, data_json) \<Rightarrow> if esq = scheme then Some data_json else None)"

text \<open>A working copy is a dictionary of dictionaries.\<close>

definition wf_data :: "odonto_data \<Rightarrow> bool" where
  "wf_data d = (py_dict d \<and> (\<forall>m \<in> snd ` set d. py_dict m))"


section \<open>Python numbers\<close>

text \<open>
  A Python \<^verbatim>\<open>float\<close> is one of the two infinities, not-a-number, or a finite value. A
  finite value is modelled by the rational number it stands for: binary rounding, the
  sign of zero and overflow to infinity are outside the model. The arithmetic on the
  special values is that of IEEE 754.
\<close>

datatype pyfloat = Finite rat | PosInf | NegInf | NaN

fun fneg :: "pyfloat \<Rightarrow> pyfloat" where
  "fneg (Finite r) = Finite (- r)"
| "fneg PosInf = NegInf"
| "fneg NegInf = PosInf"
| "fneg NaN = NaN"

fun fadd :: "pyfloat \<Rightarrow> pyfloat \<Rightarrow> pyfloat" where
  "fadd (Finite a) (Finite b) = Finite (a + b)"
| "fadd NaN y = NaN"
| "fadd x NaN = NaN"
| "fadd PosInf NegInf = NaN"
| "fadd NegInf PosInf = NaN"
| "fadd PosInf y = PosInf"
| "fadd NegInf y = NegInf"
| "fadd x PosInf = PosInf"
| "fadd x NegInf = NegInf"

definition fsub :: "pyfloat \<Rightarrow> pyfloat \<Rightarrow> pyfloat" where
  "fsub x y = fadd x (fneg y)"



text \<open>
  \<^verbatim>\<open>int(x)\<close> for a float: truncation towards zero; OverflowError on an infinity and
  ValueError on not-a-number.
\<close>

definition int_of_float :: "pyfloat \<Rightarrow> py_error + int" where
  "int_of_float x =
     (case x of
        Finite r \<Rightarrow> Inr (if 0 \<le> r then \<lfloor>r\<rfloor> else \<lceil>r\<rceil>)
      | PosInf \<Rightarrow> Inl OverflowError
      | NegInf \<Rightarrow> Inl OverflowError
      | NaN \<Rightarrow> Inl ValueError)"

subsection \<open>Reading numbers from text\<close>

text \<open>
  \<^verbatim>\<open>float(s)\<close> and \<^verbatim>\<open>int(s)\<close> on a string, after the language reference: white space
  around the text is dropped (tab to carriage return, the space, and the two spaces
  above 127, next line and no-break space); then an optional sign; then, for a float, one of
  \<^verbatim>\<open>inf\<close>, \<^verbatim>\<open>infinity\<close>, \<^verbatim>\<open>nan\<close> in any case, or digits with an optional point and an
  optional exponent; for an int, digits only. Digits may be grouped by single
  underscores. Anything else raises ValueError, here \<open>None\<close>. Among the code points
  below 256 the decimal digits are 0 to 9 only. For an int the digits are counted,
  leading zeros too and underscores not: beyond the limit of
  \<^verbatim>\<open>sys.get_int_max_str_digits()\<close>, 4300 unless the interpreter is told otherwise,
  \<^verbatim>\<open>int(s)\<close> raises ValueError.
\<close>

definition is_space :: "char \<Rightarrow> bool" where
  "is_space c =
     (let n = (of_char c :: nat)
      in (9 \<le> n \<and> n \<le> 13) \<or> n = 32 \<or> n = 133 \<or> n = 160)"

definition py_strip :: "string \<Rightarrow> string" where
  "py_strip s = rev (dropWhile is_space (rev (dropWhile is_space s)))"

definition is_decimal :: "char \<Rightarrow> bool" where
  "is_decimal c = (48 \<le> (of_char c :: nat) \<and> (of_char c :: nat) \<le> 57)"

definition digits_value :: "string \<Rightarrow> nat" where
  "digits_value ds = foldl (\<lambda>a c. 10 * a + (of_char c - 48)) 0 ds"

text \<open>
  The longest prefix that is digits grouped by single underscores, read after its
  first digit: the digits collected so far, and the text left over.
\<close>

fun more_digits :: "string \<Rightarrow> string \<Rightarrow> string \<times> string" where
  "more_digits acc [] = (acc, [])"
| "more_digits acc [c] = (if is_decimal c then (acc @ [c], []) else (acc, [c]))"
| "more_digits acc (c # d # cs) =
     (if is_decimal c then more_digits (acc @ [c]) (d # cs)
      else if c = CHR ''_'' \<and> is_decimal d then more_digits (acc @ [d]) cs
      else (acc, c # d # cs))"

definition digitpart :: "string \<Rightarrow> (string \<times> string) option" where
  "digitpart s =
     (case s of
        [] \<Rightarrow> None
      | c # cs \<Rightarrow> if is_decimal c then Some (more_digits [c] cs) else None)"

definition split_sign :: "string \<Rightarrow> bool \<times> string" where
  "split_sign s =
     (case s of
        [] \<Rightarrow> (False, [])
      | c # cs \<Rightarrow> if c = CHR ''-'' then (True, cs)
                  else if c = CHR ''+'' then (False, cs)
                  else (False, c # cs))"

definition ascii_lower :: "char \<Rightarrow> char" where
  "ascii_lower c =
     (if 65 \<le> (of_char c :: nat) \<and> (of_char c :: nat) \<le> 90
      then char_of ((of_char c :: nat) + 32) else c)"

text \<open>The mantissa \<open>ip.fp\<close> followed by the rest of the text: nothing, or an exponent.\<close>

definition with_exponent :: "string \<Rightarrow> string \<Rightarrow> string \<Rightarrow> rat option" where
  "with_exponent ip fp rest =
     (let m = (of_nat (digits_value (ip @ fp)) :: rat) / 10 ^ length fp
      in case rest of
           [] \<Rightarrow> Some m
         | e # r \<Rightarrow>
             if e = CHR ''e'' \<or> e = CHR ''E'' then
               (case digitpart (snd (split_sign r)) of
                  Some (ds, []) \<Rightarrow>
                    Some (if fst (split_sign r) then m / 10 ^ digits_value ds
                          else m * 10 ^ digits_value ds)
                | _ \<Rightarrow> None)
             else None)"

definition float_number :: "string \<Rightarrow> rat option" where
  "float_number u =
     (case digitpart u of
        Some (ip, rest) \<Rightarrow>
          (case rest of
             [] \<Rightarrow> with_exponent ip [] []
           | c # r \<Rightarrow>
               if c = CHR ''.'' then
                 (case digitpart r of
                    Some (fp, rest2) \<Rightarrow> with_exponent ip fp rest2
                  | None \<Rightarrow> with_exponent ip [] r)
               else with_exponent ip [] (c # r))
      | None \<Rightarrow>
          (case u of
             [] \<Rightarrow> None
           | c # r \<Rightarrow>
               if c = CHR ''.'' then
                 (case digitpart r of
                    Some (fp, rest2) \<Rightarrow> with_exponent [] fp rest2
                  | None \<Rightarrow> None)
               else None))"

definition py_float :: "string \<Rightarrow> pyfloat option" where
  "py_float s =
     (let t = py_strip s; neg = fst (split_sign t); u = snd (split_sign t);
          l = map ascii_lower u
      in if l = ''inf'' \<or> l = ''infinity'' then Some (if neg then NegInf else PosInf)
         else if l = ''nan'' then Some NaN
         else map_option (\<lambda>r. Finite (if neg then - r else r)) (float_number u))"

definition int_max_str_digits :: nat where
  "int_max_str_digits = 4300"

definition py_int :: "string \<Rightarrow> int option" where
  "py_int s =
     (let t = py_strip s; neg = fst (split_sign t); u = snd (split_sign t)
      in case digitpart u of
           Some (ds, []) \<Rightarrow>
             if int_max_str_digits < length ds then None
             else Some (if neg then - int (digits_value ds) else int (digits_value ds))
         | _ \<Rightarrow> None)"

subsection \<open>Numbers bound to a statement of SQLite\<close>

text \<open>
  The \<^verbatim>\<open>sqlite3\<close> module binds a Python \<^verbatim>\<open>int\<close> as a signed integer of 64 bits and
  raises OverflowError for an int outside that range. A \<^verbatim>\<open>float\<close> is bound as it is, and
  SQLite stores not-a-number as NULL.
\<close>

definition sqlite_int :: "int \<Rightarrow> bool" where
  "sqlite_int n = (- (2 ^ 63) \<le> n \<and> n < 2 ^ 63)"

definition sql_real :: "pyfloat option \<Rightarrow> pyfloat option" where
  "sql_real x = (if x = Some NaN then None else x)"


section \<open>codigo\_dental\_final.py: the periodontics tab\<close>

text \<open>\<^verbatim>\<open>_to_float\<close> and \<^verbatim>\<open>_to_int\<close>: the bare \<^verbatim>\<open>except\<close> turns every exception into zero.\<close>

definition to_float :: "string \<Rightarrow> pyfloat" where
  "to_float s = (case py_float s of None \<Rightarrow> Finite 0 | Some x \<Rightarrow> x)"

definition to_int :: "string \<Rightarrow> int" where
  "to_int s =
     (case py_float s of
        None \<Rightarrow> 0
      | Some x \<Rightarrow> (case int_of_float x of Inl e \<Rightarrow> 0 | Inr n \<Rightarrow> n))"

text \<open>\<^verbatim>\<open>xs[i]\<close> with \<open>i\<close> not negative: IndexError beyond the end.\<close>

definition py_nth :: "'a list \<Rightarrow> nat \<Rightarrow> py_error + 'a" where
  "py_nth xs i = (if i < length xs then Inr (xs ! i) else Inl IndexError)"

definition SITIOS :: "string list" where
  "SITIOS = [''MB'', ''B'', ''DB'', ''ML'', ''L'', ''DL'']"

text \<open>
  The variables of one tooth column, as \<^verbatim>\<open>_build_tooth_column\<close> returns them: the
  texts of the PS and NI entries and the values of the SS and SUP check boxes, one per
  site, and the texts of the MG, MOV and note entries.
\<close>

record tooth_vars =
  v_ps :: "string list"
  v_mg :: string
  v_ni :: "string list"
  v_ss :: "int list"
  v_sup :: "int list"
  v_mov :: string
  v_nota :: string

text \<open>\<^verbatim>\<open>self.widgets\<close>: the columns by pieza, in the order they were built.\<close>

type_synonym widgets = "(pieza \<times> tooth_vars) list"

definition build_tooth_column :: tooth_vars where
  "build_tooth_column =
     \<lparr>v_ps = replicate 6 ''0'', v_mg = ''0'', v_ni = replicate 6 ''N/A'',
      v_ss = replicate 6 0, v_sup = replicate 6 0, v_mov = ''0'', v_nota = ''''\<rparr>"

text \<open>The form after \<^verbatim>\<open>__init__\<close>: the 32 permanent teeth, each with its defaults.\<close>

definition initial_widgets :: widgets where
  "initial_widgets = map (\<lambda>p. (p, build_tooth_column)) ADULTO_PIEZAS"

text \<open>Every column built by \<^verbatim>\<open>_build_tooth_column\<close> has six variables in each row.\<close>

definition wf_vars :: "tooth_vars \<Rightarrow> bool" where
  "wf_vars vals =
     (length (v_ps vals) = 6 \<and> length (v_ni vals) = 6
      \<and> length (v_ss vals) = 6 \<and> length (v_sup vals) = 6)"

definition wf_widgets :: "widgets \<Rightarrow> bool" where
  "wf_widgets w = (py_dict w \<and> (\<forall>vals \<in> snd ` set w. wf_vars vals))"

subsection \<open>The periodontics table\<close>

record perio_row =
  r_patient_id :: int
  r_pieza :: string
  r_sitio :: string
  r_ps :: pyfloat
  r_mg :: pyfloat
  r_ni :: pyfloat
  r_ss :: int
  r_sup :: int
  r_mov :: int
  r_nota :: string

text \<open>A table is the list of its column names and its rows.\<close>

record perio_table =
  columns :: "string list"
  rows :: "perio_row list"

text \<open>
  \<^verbatim>\<open>init_db\<close>: \<^verbatim>\<open>CREATE TABLE IF NOT EXISTS periodontics(id, patient_id, pieza, sitio,
  ps, mg, ni, ss, sup, mov, UNIQUE(patient_id, pieza, sitio))\<close>. A table that is there
  already is left as it is.
\<close>

definition init_db_periodontics :: "perio_table option \<Rightarrow> perio_table" where
  "init_db_periodontics existing =
     (case existing of
        None \<Rightarrow>
          \<lparr>columns = [''id'', ''patient_id'', ''pieza'', ''sitio'', ''ps'', ''mg'', ''ni'',
                      ''ss'', ''sup'', ''mov''],
           rows = []\<rparr>
      | Some tbl \<Rightarrow> tbl)"

text \<open>
  \<^verbatim>\<open>INSERT OR REPLACE INTO periodontics (patient_id,pieza,sitio,ps,mg,ni,ss,sup,mov,nota)\<close>:
  SQLite refuses the statement with OperationalError when the table lacks one of the
  named columns; otherwise the row with the same (patient, pieza, sitio) is deleted and
  the new row is added.
\<close>

definition insert_columns :: "string list" where
  "insert_columns =
     [''patient_id'', ''pieza'', ''sitio'', ''ps'', ''mg'', ''ni'', ''ss'', ''sup'', ''mov'',
      ''nota'']"

definition same_site :: "perio_row \<Rightarrow> perio_row \<Rightarrow> bool" where
  "same_site a b =
     (r_patient_id a = r_patient_id b \<and> r_pieza a = r_pieza b \<and> r_sitio a = r_sitio b)"

definition insert_or_replace :: "perio_table \<Rightarrow> perio_row \<Rightarrow> py_error + perio_table" where
  "insert_or_replace tbl r =
     (if \<not> set insert_columns \<subseteq> set (columns tbl) then Inl OperationalError
      else Inr (tbl\<lparr>rows := filter (\<lambda>x. \<not> same_site x r) (rows tbl) @ [r]\<rparr>))"

subsection \<open>Saving the form\<close>

text \<open>
  The body of the inner loop of \<^verbatim>\<open>save_all_to_db\<close> up to the statement: the row of
  site \<open>i\<close>, from the tooth's \<open>mg\<close>, \<open>mov\<close> and \<open>nota\<close> read just before the loop.
\<close>

definition site_row ::
  "int \<Rightarrow> pieza \<Rightarrow> tooth_vars \<Rightarrow> pyfloat \<Rightarrow> int \<Rightarrow> string \<Rightarrow> nat \<Rightarrow> string
     \<Rightarrow> py_error + perio_row" where
  "site_row pid pieza vals mg mov nota i sitio =
     (case py_nth (v_ps vals) i of
        Inl e \<Rightarrow> Inl e
      | Inr ps_text \<Rightarrow>
          (let ps = to_float ps_text in
           case py_nth (v_ni vals) i of
             Inl e \<Rightarrow> Inl e
           | Inr ni_raw \<Rightarrow>
               (let ni = (if ni_raw = ''N/A'' then fsub ps mg else to_float ni_raw) in
                case py_nth (v_ss vals) i of
                  Inl e \<Rightarrow> Inl e
                | Inr ss \<Rightarrow>
                    (case py_nth (v_sup vals) i of
                       Inl e \<Rightarrow> Inl e
                     | Inr sup_i \<Rightarrow>
                         Inr \<lparr>r_patient_id = pid, r_pieza = pieza, r_sitio = sitio,
                              r_ps = ps, r_mg = mg, r_ni = ni, r_ss = ss, r_sup = sup_i,
                              r_mov = mov, r_nota = nota\<rparr>))))"

text \<open>\<^verbatim>\<open>for i, sitio in enumerate(self.sitios)\<close>\<close>

fun save_sites ::
  "int \<Rightarrow> pieza \<Rightarrow> tooth_vars \<Rightarrow> pyfloat \<Rightarrow> int \<Rightarrow> string \<Rightarrow> (nat \<times> string) list
     \<Rightarrow> perio_table \<Rightarrow> py_error + perio_table" where
  "save_sites pid pieza vals mg mov nota [] tbl = Inr tbl"
| "save_sites pid pieza vals mg mov nota ((i, sitio) # rest) tbl =
     (case site_row pid pieza vals mg mov nota i sitio of
        Inl e \<Rightarrow> Inl e
      | Inr r \<Rightarrow>
          (case insert_or_replace tbl r of
             Inl e \<Rightarrow> Inl e
           | Inr tbl' \<Rightarrow> save_sites pid pieza vals mg mov nota rest tbl'))"

text \<open>\<^verbatim>\<open>for pieza, vals in self.widgets.items()\<close>\<close>

fun save_teeth :: "int \<Rightarrow> widgets \<Rightarrow> perio_table \<Rightarrow> py_error + perio_table" where
  "save_teeth pid [] tbl = Inr tbl"
| "save_teeth pid ((pieza, vals) # rest) tbl =
     (let mg = to_float (v_mg vals); mov = to_int (v_mov vals); nota = v_nota vals in
      case save_sites pid pieza vals mg mov nota (enumerate 0 SITIOS) tbl of
        Inl e \<Rightarrow> Inl e
      | Inr tbl' \<Rightarrow> save_teeth pid rest tbl')"

text \<open>
  \<^verbatim>\<open>save_all_to_db\<close>: without a patient a warning and nothing else. An exception leaves
  the \<^verbatim>\<open>with get_conn() as con\<close> block, which rolls the transaction back: the result
  \<open>Inl\<close> stands for the exception with the table as it was.
\<close>

definition save_all_to_db :: "int option \<Rightarrow> widgets \<Rightarrow> perio_table \<Rightarrow> py_error + perio_table" where
  "save_all_to_db patient w tbl =
     (case patient of
        None \<Rightarrow> Inr tbl
      | Some pid \<Rightarrow> if pid = 0 then Inr tbl else save_teeth pid w tbl)"

subsection \<open>The metrics\<close>



text \<open>The running sums \<^verbatim>\<open>(total_ps, total_ni, sas, sites)\<close>.\<close>

type_synonym totals = "pyfloat \<times> pyfloat \<times> int \<times> int"

text \<open>The body of \<^verbatim>\<open>for i in range(6)\<close> in \<^verbatim>\<open>calculate_metrics\<close>.\<close>

definition metrics_site :: "tooth_vars \<Rightarrow> pyfloat \<Rightarrow> nat \<Rightarrow> totals \<Rightarrow> py_error + totals" where
  "metrics_site vals mg i acc =
     (case acc of (total_ps, total_ni, sas, sites) \<Rightarrow>
        (case py_nth (v_ps vals) i of
           Inl e \<Rightarrow> Inl e
         | Inr ps_text \<Rightarrow>
             (let ps = to_float ps_text in
              case py_nth (v_ni vals) i of
                Inl e \<Rightarrow> Inl e
              | Inr ni_raw \<Rightarrow>
                  (let ni = (if ni_raw = ''N/A'' then fsub ps mg else to_float ni_raw) in
                   case py_nth (v_ss vals) i of
                     Inl e \<Rightarrow> Inl e
                   | Inr ss \<Rightarrow> Inr (fadd total_ps ps, fadd total_ni ni, sas + ss, sites + 1)))))"





subsection \<open>Importing a document\<close>









section \<open>sistema\_odontologico.py: the periodontogram\<close>

text \<open>
  \<^verbatim>\<open>self.perio_entries\<close> maps a key \<^verbatim>\<open>f'{tooth_num}_{suffix}'\<close> to a Tk variable. The
  key is modelled by the pair of the tooth number and the suffix.
\<close>

datatype tk_var = StringVar string | BooleanVar bool

type_synonym perio_entries = "((int \<times> string) \<times> tk_var) list"

definition upper_teeth :: "int list" where
  "upper_teeth = [18, 17, 16, 15, 14, 13, 12, 11, 21, 22, 23, 24, 25, 26, 27, 28]"

definition lower_teeth :: "int list" where
  "lower_teeth = [48, 47, 46, 45, 44, 43, 42, 41, 31, 32, 33, 34, 35, 36, 37, 38]"

definition all_teeth :: "int list" where
  "all_teeth = [18, 17, 16, 15, 14, 13, 12, 11, 21, 22, 23, 24, 25, 26, 27, 28,
                48, 47, 46, 45, 44, 43, 42, 41, 31, 32, 33, 34, 35, 36, 37, 38]"

text \<open>
  The rows of \<^verbatim>\<open>draw_periodontogram_grid\<close>, as the suffix
  \<^verbatim>\<open>f"{face}_{label.replace(' ', '').lower()}"\<close> and whether the row is of check
  boxes. The label of the suppuration rows keeps its accent in the key.
\<close>

definition grid_rows :: "(string \<times> bool) list" where
  "grid_rows =
     [(''Bucal_ps'', False), (''Bucal_mg'', False), (''Bucal_ni'', False),
      (''Bucal_sangrado'', True), (''Bucal_supuraci'' @ [CHR 0xF3] @ ''n'', True),
      (''Lingual_ps'', False), (''Lingual_mg'', False), (''Lingual_ni'', False),
      (''Lingual_sangrado'', True), (''Lingual_supuraci'' @ [CHR 0xF3] @ ''n'', True)]"

definition jaw_entries :: "int list \<Rightarrow> perio_entries" where
  "jaw_entries teeth =
     concat (map (\<lambda>t. map (\<lambda>(suffix, is_box).
                    ((t, suffix), if is_box then BooleanVar False else StringVar []))
                  grid_rows) teeth)
     @ concat (map (\<lambda>t. [((t, ''movilidad''), StringVar []),
                          ((t, ''furcacion''), StringVar [])]) teeth)"

text \<open>The entries after \<^verbatim>\<open>draw_periodontogram_grid\<close>: every variable at its default.\<close>

definition draw_periodontogram_grid :: perio_entries where
  "draw_periodontogram_grid = jaw_entries upper_teeth @ jaw_entries lower_teeth"

text \<open>
  \<^verbatim>\<open>self.perio_entries[key].get() if key in self.perio_entries else None\<close>, for a key
  of an entry field and for a key of a check box.
\<close>

definition entry_text :: "perio_entries \<Rightarrow> int \<Rightarrow> string \<Rightarrow> string option" where
  "entry_text entries tooth suffix =
     (case map_of entries (tooth, suffix) of
        Some (StringVar s) \<Rightarrow> Some s
      | _ \<Rightarrow> None)"

definition entry_flag :: "perio_entries \<Rightarrow> int \<Rightarrow> string \<Rightarrow> bool option" where
  "entry_flag entries tooth suffix =
     (case map_of entries (tooth, suffix) of
        Some (BooleanVar b) \<Rightarrow> Some b
      | _ \<Rightarrow> None)"

subsection \<open>Validation\<close>

text \<open>
  \<^verbatim>\<open>str.isdigit\<close>: not empty, and every character a digit. Among the code points below
  256 the digits are 0 to 9 and the superscripts two, three and one.
\<close>

definition char_isdigit :: "char \<Rightarrow> bool" where
  "char_isdigit c =
     (is_decimal c \<or> (of_char c :: nat) = 178 \<or> (of_char c :: nat) = 179
      \<or> (of_char c :: nat) = 185)"

definition str_isdigit :: "string \<Rightarrow> bool" where
  "str_isdigit s = (s \<noteq> [] \<and> list_all char_isdigit s)"

text \<open>\<^verbatim>\<open>v and not v.replace('.', '', 1).isdigit()\<close> and \<^verbatim>\<open>v and not v.isdigit()\<close>\<close>

definition bad_decimal :: "string option \<Rightarrow> bool" where
  "bad_decimal v =
     (case v of
        None \<Rightarrow> False
      | Some s \<Rightarrow> s \<noteq> [] \<and> \<not> str_isdigit (remove1 (CHR ''.'') s))"

definition bad_integer :: "string option \<Rightarrow> bool" where
  "bad_integer v = (case v of None \<Rightarrow> False | Some s \<Rightarrow> s \<noteq> [] \<and> \<not> str_isdigit s)"

text \<open>
  The checks of one tooth in their order. The result is the ValueError of the first
  check that fails, as the field and the tooth that its message names
  (\<^verbatim>\<open>f"Valor no numerico para PS Bucal del diente {tooth_num}"\<close>).
\<close>

definition validate_tooth :: "perio_entries \<Rightarrow> int \<Rightarrow> (string \<times> int) option" where
  "validate_tooth entries tooth_num =
     (if bad_decimal (entry_text entries tooth_num ''Bucal_ps'')
        then Some (''PS Bucal'', tooth_num)
      else if bad_decimal (entry_text entries tooth_num ''Bucal_mg'')
        then Some (''MG Bucal'', tooth_num)
      else if bad_decimal (entry_text entries tooth_num ''Bucal_ni'')
        then Some (''NI Bucal'', tooth_num)
      else if bad_decimal (entry_text entries tooth_num ''Lingual_ps'')
        then Some (''PS Lingual'', tooth_num)
      else if bad_decimal (entry_text entries tooth_num ''Lingual_mg'')
        then Some (''MG Lingual'', tooth_num)
      else if bad_decimal (entry_text entries tooth_num ''Lingual_ni'')
        then Some (''NI Lingual'', tooth_num)
      else if bad_integer (entry_text entries tooth_num ''movilidad'')
        then Some (''Movilidad'', tooth_num)
      else None)"

fun validate_all :: "perio_entries \<Rightarrow> int list \<Rightarrow> (string \<times> int) option" where
  "validate_all entries [] = None"
| "validate_all entries (tooth_num # rest) =
     (case validate_tooth entries tooth_num of
        Some msg \<Rightarrow> Some msg
      | None \<Rightarrow> validate_all entries rest)"

subsection \<open>The periodontogram table and the save\<close>

record perio_record =
  g_patient_id :: int
  g_tooth_number :: int
  ps_buccal :: "pyfloat option"
  mg_buccal :: "pyfloat option"
  ni_buccal :: "pyfloat option"
  ps_lingual :: "pyfloat option"
  mg_lingual :: "pyfloat option"
  ni_lingual :: "pyfloat option"
  bleeding_buccal :: "bool option"
  suppuration_buccal :: "bool option"
  bleeding_lingual :: "bool option"
  suppuration_lingual :: "bool option"
  mobility :: "int option"
  furcation :: "string option"

text \<open>\<^verbatim>\<open>float(v) if v else None\<close> and \<^verbatim>\<open>int(v) if v else None\<close>\<close>

definition float_or_none :: "string option \<Rightarrow> py_error + pyfloat option" where
  "float_or_none v =
     (case v of
        None \<Rightarrow> Inr None
      | Some s \<Rightarrow>
          if s = [] then Inr None
          else (case py_float s of None \<Rightarrow> Inl ValueError | Some x \<Rightarrow> Inr (Some x)))"

definition int_or_none :: "string option \<Rightarrow> py_error + int option" where
  "int_or_none v =
     (case v of
        None \<Rightarrow> Inr None
      | Some s \<Rightarrow>
          if s = [] then Inr None
          else (case py_int s of None \<Rightarrow> Inl ValueError | Some n \<Rightarrow> Inr (Some n)))"

text \<open>
  The body of the second loop of \<^verbatim>\<open>save_perio_measurements\<close> up to the INSERT: the
  row of one tooth. The check boxes are looked up under the keys without accent.
\<close>

definition tooth_record :: "perio_entries \<Rightarrow> int \<Rightarrow> int \<Rightarrow> py_error + perio_record" where
  "tooth_record entries pid tooth_num =
     (case float_or_none (entry_text entries tooth_num ''Bucal_ps'') of
        Inl e \<Rightarrow> Inl e
      | Inr ps_b \<Rightarrow>
     (case float_or_none (entry_text entries tooth_num ''Bucal_mg'') of
        Inl e \<Rightarrow> Inl e
      | Inr mg_b \<Rightarrow>
     (case float_or_none (entry_text entries tooth_num ''Bucal_ni'') of
        Inl e \<Rightarrow> Inl e
      | Inr ni_b \<Rightarrow>
     (case float_or_none (entry_text entries tooth_num ''Lingual_ps'') of
        Inl e \<Rightarrow> Inl e
      | Inr ps_l \<Rightarrow>
     (case float_or_none (entry_text entries tooth_num ''Lingual_mg'') of
        Inl e \<Rightarrow> Inl e
      | Inr mg_l \<Rightarrow>
     (case float_or_none (entry_text entries tooth_num ''Lingual_ni'') of
        Inl e \<Rightarrow> Inl e
      | Inr ni_l \<Rightarrow>
     (case int_or_none (entry_text entries tooth_num ''movilidad'') of
        Inl e \<Rightarrow> Inl e
      | Inr mob \<Rightarrow>
          Inr \<lparr>g_patient_id = pid, g_tooth_number = tooth_num,
               ps_buccal = ps_b, mg_buccal = mg_b, ni_buccal = ni_b,
               ps_lingual = ps_l, mg_lingual = mg_l, ni_lingual = ni_l,
               bleeding_buccal = entry_flag entries tooth_num ''Bucal_sangrado'',
               suppuration_buccal = entry_flag entries tooth_num ''Bucal_supuracion'',
               bleeding_lingual = entry_flag entries tooth_num ''Lingual_sangrado'',
               suppuration_lingual = entry_flag entries tooth_num ''Lingual_supuracion'',
               mobility = mob,
               furcation = entry_text entries tooth_num ''furcacion''\<rparr>)))))))"

text \<open>
  The INSERT of one row. The ints among its parameters are the patient, the tooth and
  the mobility: when one of them does not fit an integer of SQLite the statement raises
  OverflowError and nothing is written. Otherwise the row is added as SQLite keeps it,
  with NULL for a not-a-number.
\<close>

definition bindable :: "perio_record \<Rightarrow> bool" where
  "bindable r =
     (sqlite_int (g_patient_id r) \<and> sqlite_int (g_tooth_number r)
      \<and> (case mobility r of None \<Rightarrow> True | Some n \<Rightarrow> sqlite_int n))"

definition stored :: "perio_record \<Rightarrow> perio_record" where
  "stored r =
     r\<lparr>ps_buccal := sql_real (ps_buccal r), mg_buccal := sql_real (mg_buccal r),
       ni_buccal := sql_real (ni_buccal r), ps_lingual := sql_real (ps_lingual r),
       mg_lingual := sql_real (mg_lingual r), ni_lingual := sql_real (ni_lingual r)\<rparr>"

text \<open>
  The second loop: one INSERT per tooth. The result is the table as the connection sees
  it, and the exception that stopped the loop, if any.
\<close>

fun insert_teeth ::
  "perio_entries \<Rightarrow> int \<Rightarrow> int list \<Rightarrow> perio_record list
     \<Rightarrow> perio_record list \<times> py_error option" where
  "insert_teeth entries pid [] db = (db, None)"
| "insert_teeth entries pid (tooth_num # rest) db =
     (case tooth_record entries pid tooth_num of
        Inl e \<Rightarrow> (db, Some e)
      | Inr r \<Rightarrow>
          if bindable r then insert_teeth entries pid rest (db @ [stored r])
          else (db, Some OverflowError))"

text \<open>
  What \<^verbatim>\<open>save_perio_measurements\<close> ends in: the warning that no patient is selected;
  the warning that names a field and a tooth, before anything is deleted; the table
  committed; or an exception that nothing catches, with the table as the open
  transaction holds it. The DELETE binds the patient and raises OverflowError, deleting
  nothing, when the patient does not fit an integer of SQLite; every other exception
  is raised after the DELETE.
\<close>

datatype save_outcome =
    NoPatient
  | Rejected string int
  | Saved "perio_record list"
  | Raised py_error "perio_record list"

definition save_perio_measurements ::
  "int option \<Rightarrow> perio_entries \<Rightarrow> perio_record list \<Rightarrow> save_outcome" where
  "save_perio_measurements current_patient_id entries db =
     (case current_patient_id of
        None \<Rightarrow> NoPatient
      | Some pid \<Rightarrow>
          if pid = 0 then NoPatient
          else (case validate_all entries all_teeth of
                  Some (field, tooth_num) \<Rightarrow> Rejected field tooth_num
                | None \<Rightarrow>
                    if \<not> sqlite_int pid then Raised OverflowError db
                    else
                      (let deleted = filter (\<lambda>r. g_patient_id r \<noteq> pid) db;
                           res = insert_teeth entries pid all_teeth deleted
                       in case snd res of
                            Some e \<Rightarrow> Raised e (fst res)
                          | None \<Rightarrow> Saved (fst res))))"

text \<open>The table that the connection holds after the call.\<close>

definition table_after :: "perio_record list \<Rightarrow> save_outcome \<Rightarrow> perio_record list" where
  "table_after db outcome =
     (case outcome of
        NoPatient \<Rightarrow> db
      | Rejected field tooth_num \<Rightarrow> db
      | Saved db' \<Rightarrow> db'
      | Raised e db' \<Rightarrow> db')"

text \<open>The suffix of the entry that a message names.\<close>

definition field_suffix :: "string \<Rightarrow> string" where
  "field_suffix field =
     (if field = ''PS Bucal'' then ''Bucal_ps''
      else if field = ''MG Bucal'' then ''Bucal_mg''
      else if field = ''NI Bucal'' then ''Bucal_ni''
      else if field = ''PS Lingual'' then ''Lingual_ps''
      else if field = ''MG Lingual'' then ''Lingual_mg''
      else if field = ''NI Lingual'' then ''Lingual_ni''
      else ''movilidad'')"

text \<open>A field of the form is refused by the check that reads it.\<close>

definition refused :: "perio_entries \<Rightarrow> int \<Rightarrow> string \<Rightarrow> bool" where
  "refused entries tooth_num suffix =
     (if suffix = ''movilidad'' then bad_integer (entry_text entries tooth_num suffix)
      else bad_decimal (entry_text entries tooth_num suffix))"

definition checked_suffixes :: "string list" where
  "checked_suffixes =
     [''Bucal_ps'', ''Bucal_mg'', ''Bucal_ni'', ''Lingual_ps'', ''Lingual_mg'', ''Lingual_ni'',
      ''movilidad'']"

definition is_saved :: "save_outcome \<Rightarrow> bool" where
  "is_saved outcome = (case outcome of Saved db' \<Rightarrow> True | _ \<Rightarrow> False)"




section \<open>sistema\_odontologico.py: the odontogram\<close>

definition tooth_colors :: "(string \<times> string) list" where
  "tooth_colors =
     [(''Sano'', ''#FFFFFF''),
      (''Caries'', ''#FF6347''),
      (''Restauraci'' @ [CHR 0xF3] @ ''n'', ''#4169E1''),
      (''Ausente'', ''#696969''),
      (''Implante'', ''#FFD700''),
      (''Corona'', ''#9370DB''),
      (''Endodoncia'', ''#FF69B4''),
      (''A-Extracci'' @ [CHR 0xF3] @ ''n'', ''#FF0000'')]"

text \<open>
  \<^verbatim>\<open>self.tooth_objects\<close> maps a tooth number to the canvas items of the tooth, by
  surface code; the canvas gives every item its fill colour. Here the status of a
  surface is its colour.
\<close>

type_synonym tooth_objects = "(int \<times> (string \<times> nat) list) list"

record odontogram =
  tooth_objects :: tooth_objects
  item_fill :: "nat \<Rightarrow> string"

text \<open>
  \<^verbatim>\<open>create_tooth_surfaces\<close>: seven canvas items, numbered as they are created from
  the next free item number on.
\<close>

definition create_tooth_surfaces :: "nat \<Rightarrow> (string \<times> nat) list" where
  "create_tooth_surfaces next_item =
     [(''O'', next_item), (''M'', next_item + 1), (''D'', next_item + 2),
      (''V'', next_item + 3), (''P'', next_item + 4), (''frame'', next_item + 5),
      (''number'', next_item + 6)]"

text \<open>\<^verbatim>\<open>draw_quadrant\<close>, for the teeth of one quadrant after the other.\<close>

fun draw_teeth :: "nat \<Rightarrow> int list \<Rightarrow> tooth_objects \<Rightarrow> tooth_objects" where
  "draw_teeth next_item [] objs = objs"
| "draw_teeth next_item (tooth_num # rest) objs =
     draw_teeth (next_item + 7) rest
       (AList.update tooth_num (create_tooth_surfaces next_item) objs)"

text \<open>
  \<^verbatim>\<open>draw_odontogram\<close>: two captions and the centre line come first, then the quadrants
  1 to 4 with the teeth 18 to 11, 21 to 28, 31 to 38 and 48 to 41.
\<close>

definition draw_odontogram :: tooth_objects where
  "draw_odontogram =
     draw_teeth 4
       ([18, 17, 16, 15, 14, 13, 12, 11] @ [21, 22, 23, 24, 25, 26, 27, 28]
        @ [31, 32, 33, 34, 35, 36, 37, 38] @ [48, 47, 46, 45, 44, 43, 42, 41]) []"

text \<open>
  \<^verbatim>\<open>apply_surface_status\<close>: the guard
  \<^verbatim>\<open>if tooth_number in self.tooth_objects and surface in self.tooth_objects[tooth_number]\<close>
  has no \<^verbatim>\<open>else\<close>.
\<close>

definition apply_surface_status :: "odontogram \<Rightarrow> int \<Rightarrow> string \<Rightarrow> string \<Rightarrow> odontogram" where
  "apply_surface_status self tooth_number surface status =
     (case map_of (tooth_objects self) tooth_number of
        None \<Rightarrow> self
      | Some surfaces \<Rightarrow>
          (case map_of surfaces surface of
             None \<Rightarrow> self
           | Some item \<Rightarrow>
               self\<lparr>item_fill := (item_fill self)(item := dict_get tooth_colors status ''#FFFFFF'')\<rparr>))"

text \<open>The rows of the table \<^verbatim>\<open>odontogram(patient_id, tooth_number, status, face)\<close>.\<close>

record odontogram_row =
  o_patient_id :: int
  o_tooth_number :: int
  o_status :: string
  o_face :: string

text \<open>
  \<^verbatim>\<open>load_odontogram\<close>: nothing without a patient. Otherwise every surface is painted
  white, and then every stored row of the patient paints its surface, under the same
  guard as above.
\<close>

definition paint_white :: "odontogram \<Rightarrow> odontogram" where
  "paint_white self =
     foldl (\<lambda>s item. s\<lparr>item_fill := (item_fill s)(item := ''white'')\<rparr>) self
       (concat (map (\<lambda>(tooth_num, surfaces).
                  map snd (filter (\<lambda>(surface_code, item).
                                     surface_code \<notin> set [''frame'', ''number''])
                             surfaces))
                (tooth_objects self)))"

fun paint_rows :: "odontogram \<Rightarrow> odontogram_row list \<Rightarrow> odontogram" where
  "paint_rows self [] = self"
| "paint_rows self (row # rest) =
     paint_rows
       (case map_of (tooth_objects self) (o_tooth_number row) of
          None \<Rightarrow> self
        | Some surfaces \<Rightarrow>
            (case map_of surfaces (o_face row) of
               None \<Rightarrow> self
             | Some item \<Rightarrow>
                 self\<lparr>item_fill :=
                   (item_fill self)(item := dict_get tooth_colors (o_status row) ''#FFFFFF'')\<rparr>))
       rest"

definition load_odontogram :: "int option \<Rightarrow> odontogram \<Rightarrow> odontogram_row list \<Rightarrow> odontogram" where
  "load_odontogram current_patient_id self db =
     (case current_patient_id of
        None \<Rightarrow> self
      | Some pid \<Rightarrow>
          if pid = 0 then self
          else paint_rows (paint_white self) (filter (\<lambda>row. o_patient_id row = pid) db))"


section \<open>Properties of the odontogram tab\<close>

subsection \<open>Dictionary reads after writes\<close>

lemma dict_get_update:
  "dict_get (AList.update k v d) k' dflt = (if k' = k then v else dict_get d k' dflt)"
  by (simp add: dict_get_def AList.update_conv')

lemma get_status_set:
  "get_status (AList.update p (AList.update c v (dict_get d p [])) d) p' c' =
     (if p' = p \<and> c' = c then v else get_status d p' c')"
  by (simp add: get_status_def dict_get_update)

lemma dict_get_absent: "k \<notin> fst ` set d \<Longrightarrow> dict_get d k dflt = dflt"
  using map_of_eq_None_iff [of d k] by (simp add: dict_get_def)

lemma get_status_touch:
  "p \<notin> fst ` set d \<Longrightarrow> get_status (AList.update p [] d) p' c' = get_status d p' c'"
  by (simp add: get_status_def dict_get_update dict_get_absent)

lemma lt5: "i < (5::nat) \<longleftrightarrow> i = 0 \<or> i = 1 \<or> i = 2 \<or> i = 3 \<or> i = 4"
  by arith

lemma list_index_states:
  "i < 5 \<Longrightarrow> list_index ODONTO_STATES (ODONTO_STATES ! i) = Some i"
  unfolding lt5 by (elim disjE) (simp_all add: ODONTO_STATES_def)

lemma states_index:
  assumes "s \<in> set ODONTO_STATES"
  shows "\<exists>i<5. s = ODONTO_STATES ! i"
proof -
  have "s = ODONTO_STATES ! 0 \<or> s = ODONTO_STATES ! 1 \<or> s = ODONTO_STATES ! 2
        \<or> s = ODONTO_STATES ! 3 \<or> s = ODONTO_STATES ! 4"
    using assms by (simp add: ODONTO_STATES_def)
  then show ?thesis by (metis lt5)
qed

lemma colour_states:
  "i < 5 \<Longrightarrow> \<exists>c. map_of ODONTO_COLORS (ODONTO_STATES ! i) = Some c"
  unfolding lt5 by (elim disjE) (simp_all add: ODONTO_STATES_def ODONTO_COLORS_def)

lemma spec_next_nth:
  "i < 5 \<Longrightarrow> spec_next_status (ODONTO_STATES ! i) = ODONTO_STATES ! ((i + 1) mod 5)"
  unfolding lt5 by (elim disjE) (simp_all add: ODONTO_STATES_def spec_next_status_def)


lemma length_states: "length ODONTO_STATES = 5"
  by (simp add: ODONTO_STATES_def)

lemma on_click_step:
  assumes pat: "truthy (patient_id self)"
    and idx: "list_index ODONTO_STATES (get_status (data self) p c) = Some i"
    and i5: "i < 5"
  shows "\<exists>self' col. on_click self (Some (p, c)) = Inr (self', Some col)
           \<and> patient_id self' = patient_id self
           \<and> esquema self' = esquema self
           \<and> map_of ODONTO_COLORS (ODONTO_STATES ! ((i + 1) mod 5)) = Some col
           \<and> (\<forall>p' c'. get_status (data self') p' c' =
                 (if p' = p \<and> c' = c then ODONTO_STATES ! ((i + 1) mod 5)
                  else get_status (data self) p' c'))"
proof -
  have "(i + 1) mod 5 < 5" by simp
  then obtain col where col: "map_of ODONTO_COLORS (ODONTO_STATES ! ((i + 1) mod 5)) = Some col"
    using colour_states by blast
  define d1 where "d1 = (if p \<notin> fst ` set (data self)
                          then AList.update p [] (data self) else data self)"
  define d2 where "d2 = AList.update p
         (AList.update c (ODONTO_STATES ! ((i + 1) mod 5)) (dict_get d1 p [])) d1"
  have g1: "get_status d1 p' c' = get_status (data self) p' c'" for p' c'
    by (simp add: d1_def get_status_touch)
  have g2: "get_status d2 p' c' =
       (if p' = p \<and> c' = c then ODONTO_STATES ! ((i + 1) mod 5)
        else get_status (data self) p' c')" for p' c'
    by (simp add: d2_def get_status_set g1)
  have "on_click self (Some (p, c)) = Inr (self\<lparr>data := d2\<rparr>, Some col)"
    using pat idx col
    by (simp add: on_click_def get_status_def [symmetric] length_states d1_def d2_def Let_def)
  then show ?thesis using col g2 by simp
qed

lemma list_index_nth:
  "list_index xs x = Some i \<Longrightarrow> i < length xs \<and> xs ! i = x"
  by (induction xs arbitrary: i) (auto split: if_splits)

lemma click_times_cycle:
  assumes "truthy (patient_id self)"
    and "list_index ODONTO_STATES (get_status (data self) p c) = Some i"
    and "i < 5"
  shows "\<exists>self'. click_times n self (p, c) = Inr self'
           \<and> get_status (data self') p c = ODONTO_STATES ! ((i + n) mod 5)"
  using assms
proof (induction n arbitrary: self i)
  case 0
  have "ODONTO_STATES ! i = get_status (data self) p c"
    using list_index_nth [OF "0.prems"(2)] by simp
  then show ?case using "0.prems"(3) by simp
next
  case (Suc n)
  from on_click_step [OF Suc.prems]
  obtain self1 col where s1: "on_click self (Some (p, c)) = Inr (self1, Some col)"
    and p1: "patient_id self1 = patient_id self"
    and g1: "get_status (data self1) p c = ODONTO_STATES ! ((i + 1) mod 5)"
    by auto
  have t1: "truthy (patient_id self1)" using p1 Suc.prems(1) by simp
  have lt: "(i + 1) mod 5 < 5" by simp
  have i1: "list_index ODONTO_STATES (get_status (data self1) p c) = Some ((i + 1) mod 5)"
    using g1 list_index_states [OF lt] by simp
  from Suc.IH [OF t1 i1 lt]
  obtain self' where c1: "click_times n self1 (p, c) = Inr self'"
    and g: "get_status (data self') p c = ODONTO_STATES ! (((i + 1) mod 5 + n) mod 5)"
    by blast
  have "((i + 1) mod 5 + n) mod 5 = (i + Suc n) mod 5"
    by (simp add: mod_add_left_eq)
  then show ?case using s1 c1 g by simp
qed


text \<open>
  Claim C2. With a patient selected, a click on a surface whose current status is one of
  the five states of \<^const>\<open>ODONTO_STATES\<close> succeeds, replaces that status with its
  successor in the cyclic order Sano, Caries, Restauracion, Ausente, Implante, Sano,
  paints the rectangle with the colour of the new status, and leaves every other
  (pieza, cara) pair as it was; five clicks in a row on the same surface bring it back
  to the status it started from.
\<close>

theorem cycle_status_successor:
  assumes "truthy (patient_id self)"
    and "get_status (data self) p c \<in> set ODONTO_STATES"
  shows "\<exists>self' col.
           on_click self (Some (p, c)) = Inr (self', Some col)
           \<and> get_status (data self') p c = spec_next_status (get_status (data self) p c)
           \<and> map_of ODONTO_COLORS (spec_next_status (get_status (data self) p c)) = Some col
           \<and> (\<forall>p' c'. (p', c') \<noteq> (p, c) \<longrightarrow>
                 get_status (data self') p' c' = get_status (data self) p' c')
           \<and> (\<exists>self5. click_times 5 self (p, c) = Inr self5
                 \<and> get_status (data self5) p c = get_status (data self) p c)"
proof -
  from states_index [OF assms(2)]
  obtain i where i5: "i < 5" and si: "get_status (data self) p c = ODONTO_STATES ! i"
    by blast
  have idx: "list_index ODONTO_STATES (get_status (data self) p c) = Some i"
    using si list_index_states [OF i5] by simp
  from on_click_step [OF assms(1) idx i5]
  obtain self' col where
    a: "on_click self (Some (p, c)) = Inr (self', Some col)"
    and b: "map_of ODONTO_COLORS (ODONTO_STATES ! ((i + 1) mod 5)) = Some col"
    and g: "\<And>p' c'. get_status (data self') p' c' =
                 (if p' = p \<and> c' = c then ODONTO_STATES ! ((i + 1) mod 5)
                  else get_status (data self) p' c')"
    by blast
  have nx: "spec_next_status (get_status (data self) p c) = ODONTO_STATES ! ((i + 1) mod 5)"
    using si spec_next_nth [OF i5] by simp
  from click_times_cycle [OF assms(1) idx i5, of 5]
  obtain self5 where c5: "click_times 5 self (p, c) = Inr self5"
    and g5: "get_status (data self5) p c = ODONTO_STATES ! ((i + 5) mod 5)"
    by blast
  have "get_status (data self5) p c = get_status (data self) p c"
    using g5 si i5 by simp
  with a b g nx c5 show ?thesis by auto
qed

text \<open>
  The theorem at a fresh chart of patient 1: the first click on surface O of pieza 16
  gives Caries, the fifth gives Sano again.
\<close>

theorem cycle_status_successor_witness:
  "truthy (patient_id \<lparr>patient_id = Some 1, esquema = ''adulto'', data = []\<rparr>)
   \<and> get_status (data \<lparr>patient_id = Some 1, esquema = ''adulto'', data = []\<rparr>) ''16'' ''O''
       \<in> set ODONTO_STATES
   \<and> (\<exists>self' col.
         on_click \<lparr>patient_id = Some 1, esquema = ''adulto'', data = []\<rparr> (Some (''16'', ''O''))
           = Inr (self', Some col)
         \<and> get_status (data self') ''16'' ''O'' = ''Caries''
         \<and> (\<exists>self5. click_times 5 \<lparr>patient_id = Some 1, esquema = ''adulto'', data = []\<rparr>
                (''16'', ''O'') = Inr self5
              \<and> get_status (data self5) ''16'' ''O'' = ''Sano''))"
proof -
  let ?w = "\<lparr>patient_id = Some 1, esquema = ''adulto'', data = []\<rparr>"
  have h1: "truthy (patient_id ?w)" by (simp add: truthy_def)
  have h2: "get_status (data ?w) ''16'' ''O'' \<in> set ODONTO_STATES"
    by (simp add: get_status_def dict_get_def ODONTO_STATES_def)
  have s: "get_status (data ?w) ''16'' ''O'' = ''Sano''"
    by (simp add: get_status_def dict_get_def)
  have n: "spec_next_status ''Sano'' = ''Caries''" by (simp add: spec_next_status_def)
  from cycle_status_successor [OF h1 h2]
  obtain self' col self5 where
    a: "on_click ?w (Some (''16'', ''O'')) = Inr (self', Some col)"
    and b: "get_status (data self') ''16'' ''O'' = spec_next_status (get_status (data ?w) ''16'' ''O'')"
    and c: "click_times 5 ?w (''16'', ''O'') = Inr self5"
    and d: "get_status (data self5) ''16'' ''O'' = get_status (data ?w) ''16'' ''O''"
    by blast
  have b': "get_status (data self') ''16'' ''O'' = ''Caries''"
    using b by (simp only: s n)
  have d': "get_status (data self5) ''16'' ''O'' = ''Sano''"
    using d by (simp only: s)
  have "\<exists>self' col. on_click ?w (Some (''16'', ''O'')) = Inr (self', Some col)
         \<and> get_status (data self') ''16'' ''O'' = ''Caries''
         \<and> (\<exists>self5. click_times 5 ?w (''16'', ''O'') = Inr self5
              \<and> get_status (data self5) ''16'' ''O'' = ''Sano'')"
    using a b' c d' by blast
  with h1 h2 show ?thesis by (intro conjI)
qed

subsection \<open>Saving and loading the odontogram\<close>

lemma update_fresh:
  "k \<notin> fst ` set d \<Longrightarrow> AList.update k v d = d @ [(k, v)]"
  by (induction d) auto

lemma foldl_update_distinct:
  "distinct (map fst (acc @ kvs)) \<Longrightarrow>
     foldl (\<lambda>d (k, v). AList.update k v d) acc kvs = acc @ kvs"
proof (induction kvs arbitrary: acc)
  case Nil
  then show ?case by simp
next
  case (Cons kv kvs)
  obtain k v where kv: "kv = (k, v)" by (cases kv)
  have fresh: "k \<notin> fst ` set acc" using Cons.prems kv by auto
  have d: "distinct (map fst ((acc @ [(k, v)]) @ kvs))" using Cons.prems kv by simp
  show ?case using Cons.IH [OF d] by (simp add: kv update_fresh [OF fresh])
qed

lemma dict_of_items_dict: "py_dict kvs \<Longrightarrow> dict_of_items kvs = kvs"
  using foldl_update_distinct [of "[]" kvs] by (simp add: dict_of_items_def py_dict_def)

lemma json_roundtrip: "wf_data d \<Longrightarrow> json_loads (json_dumps d) = d"
proof -
  assume wf: "wf_data d"
  have inner: "map (\<lambda>(k, vs). (k, dict_of_items vs)) d = d"
    using wf by (intro map_idI) (auto simp add: wf_data_def dict_of_items_dict)
  show ?thesis using wf by (simp add: json_dumps_def inner dict_of_items_dict wf_data_def)
qed


lemma map_of_save:
  "patient_id self = Some pid \<Longrightarrow> pid \<noteq> 0 \<Longrightarrow>
   map_of (save self tbl) = (map_of tbl)(pid \<mapsto> (esquema self, json_dumps (data self)))"
  by (simp add: save_def AList.update_conv')

lemma load_after_save:
  assumes "patient_id self = Some pid" and "pid \<noteq> 0" and "patient_id tab = Some pid"
  shows "load tab (save self tbl) =
           tab\<lparr>esquema := esquema self, data := json_loads (json_dumps (data self))\<rparr>"
  using assms by (simp add: load_def map_of_save Let_def)

text \<open>
  Claim C3. For a selected patient, saving a working copy and loading it again (into the
  same tab or into any tab showing that patient) gives back exactly the working copy that
  was saved: every set entry reads as before, and no pieza that was absent is present
  afterwards, so an unset surface still reads as the default Sano. The scheme selector
  comes back with it.
\<close>

theorem save_load_roundtrip:
  assumes "patient_id self = Some pid" and "pid \<noteq> 0" and "patient_id tab = Some pid"
    and "wf_data (data self)"
  shows "data (load tab (save self tbl)) = data self
         \<and> esquema (load tab (save self tbl)) = esquema self
         \<and> (\<forall>pieza cara. get_status (data (load tab (save self tbl))) pieza cara
               = get_status (data self) pieza cara)
         \<and> (\<forall>pieza. pieza \<notin> fst ` set (data self) \<longrightarrow>
               pieza \<notin> fst ` set (data (load tab (save self tbl))))"
  using assms by (simp add: load_after_save json_roundtrip)

text \<open>
  The snapshot \<^verbatim>\<open>{"16": {"O": "Caries"}}\<close> of patient 1, saved into an empty table and
  loaded again: surface O of pieza 16 reads Caries and surface M reads Sano.
\<close>

theorem save_load_roundtrip_witness:
  "patient_id \<lparr>patient_id = Some 1, esquema = ''adulto'',
       data = [(''16'', [(''O'', ''Caries'')])]\<rparr> = Some 1
   \<and> (1::int) \<noteq> 0
   \<and> patient_id \<lparr>patient_id = Some 1, esquema = ''temporal'', data = []\<rparr> = Some 1
   \<and> wf_data [(''16'', [(''O'', ''Caries'')])]
   \<and> data (load \<lparr>patient_id = Some 1, esquema = ''temporal'', data = []\<rparr>
        (save \<lparr>patient_id = Some 1, esquema = ''adulto'',
           data = [(''16'', [(''O'', ''Caries'')])]\<rparr> []))
       = [(''16'', [(''O'', ''Caries'')])]
   \<and> get_status (data (load \<lparr>patient_id = Some 1, esquema = ''temporal'', data = []\<rparr>
        (save \<lparr>patient_id = Some 1, esquema = ''adulto'',
           data = [(''16'', [(''O'', ''Caries'')])]\<rparr> []))) ''16'' ''O'' = ''Caries''
   \<and> get_status (data (load \<lparr>patient_id = Some 1, esquema = ''temporal'', data = []\<rparr>
        (save \<lparr>patient_id = Some 1, esquema = ''adulto'',
           data = [(''16'', [(''O'', ''Caries'')])]\<rparr> []))) ''16'' ''M'' = ''Sano''"
proof -
  let ?self = "\<lparr>patient_id = Some 1, esquema = ''adulto'',
       data = [(''16'', [(''O'', ''Caries'')])]\<rparr>"
  let ?tab = "\<lparr>patient_id = Some 1, esquema = ''temporal'', data = []\<rparr>"
  have h1: "patient_id ?self = Some 1" by simp
  have h2: "(1::int) \<noteq> 0" by simp
  have h3: "patient_id ?tab = Some 1" by simp
  have h4: "wf_data (data ?self)" by (simp add: wf_data_def py_dict_def)
  have d: "data (load ?tab (save ?self [])) = data ?self"
    using save_load_roundtrip [OF h1 h2 h3 h4, of "[]"] by blast
  have g1: "get_status (data ?self) ''16'' ''O'' = ''Caries''"
    by (simp add: get_status_def dict_get_def)
  have g2: "get_status (data ?self) ''16'' ''M'' = ''Sano''"
    by (simp add: get_status_def dict_get_def)
  show ?thesis using h4 d g1 g2 by simp
qed


lemma filter_key_le1:
  "distinct (map fst tbl) \<Longrightarrow> length (filter (\<lambda>r. fst r = q) tbl) \<le> 1"
proof (induction tbl)
  case Nil
  then show ?case by simp
next
  case (Cons r tbl)
  show ?case
  proof (cases "fst r = q")
    case True
    then have "q \<notin> fst ` set tbl" using Cons.prems by auto
    then have "filter (\<lambda>r. fst r = q) tbl = []"
      by (auto simp add: filter_empty_conv)
    then show ?thesis using True by simp
  next
    case False
    then show ?thesis using Cons by simp
  qed
qed

text \<open>
  Claim C1 as stated asks that a save leave the stored snapshot of the other scheme
  alone. It does not: patient 1 has a permanent-dentition snapshot stored; a save of the
  same patient under the scheme temporal overwrites the row, and the query for the
  patient's adulto snapshot finds nothing any more.
\<close>

theorem save_other_scheme_counterexample:
  "stored_snapshot
     (save \<lparr>patient_id = Some 1, esquema = ''adulto'',
             data = [(''16'', [(''O'', ''Caries'')])]\<rparr> [])
     1 ''adulto'' = Some (JsonChart [(''16'', [(''O'', ''Caries'')])])
   \<and> stored_snapshot
     (save \<lparr>patient_id = Some 1, esquema = ''temporal'',
             data = [(''55'', [(''O'', ''Caries'')])]\<rparr>
        (save \<lparr>patient_id = Some 1, esquema = ''adulto'',
                data = [(''16'', [(''O'', ''Caries'')])]\<rparr> []))
     1 ''adulto'' = None"
  by (simp add: stored_snapshot_def save_def json_dumps_def)

text \<open>
  Claim C1, amended. The table holds at most one row per patient, and the row carries the
  scheme it was saved under. A save for a selected patient keeps that so, makes the
  patient's row the scheme and working copy just saved whatever the row held before
  (so a query by scheme finds the new snapshot under the saved scheme and nothing under
  any other), and leaves the rows of all other patients unchanged.
\<close>

theorem save_one_row_per_patient:
  assumes "py_dict tbl" and "patient_id self = Some pid" and "pid \<noteq> 0"
  shows "py_dict (save self tbl)
         \<and> length (filter (\<lambda>r. fst r = q) (save self tbl)) \<le> 1
         \<and> map_of (save self tbl) pid = Some (esquema self, json_dumps (data self))
         \<and> (\<forall>scheme. stored_snapshot (save self tbl) pid scheme =
               (if scheme = esquema self then Some (json_dumps (data self)) else None))
         \<and> (\<forall>other. other \<noteq> pid \<longrightarrow> map_of (save self tbl) other = map_of tbl other)"
proof -
  have d: "py_dict (save self tbl)"
    using assms by (simp add: save_def py_dict_def AList.distinct_update)
  have m: "map_of (save self tbl) = (map_of tbl)(pid \<mapsto> (esquema self, json_dumps (data self)))"
    using assms by (simp add: map_of_save)
  show ?thesis
    using d filter_key_le1 [of "save self tbl" q]
    by (auto simp add: m stored_snapshot_def py_dict_def)
qed

text \<open>
  The theorem at the table holding the adulto row of patient 1 and a save under temporal.
\<close>

theorem save_one_row_per_patient_witness:
  "py_dict [(1::int, ''adulto'', JsonChart [(''16'', [(''O'', ''Caries'')])])]
   \<and> patient_id \<lparr>patient_id = Some 1, esquema = ''temporal'',
         data = [(''55'', [(''O'', ''Caries'')])]\<rparr> = Some 1
   \<and> (1::int) \<noteq> 0
   \<and> save \<lparr>patient_id = Some 1, esquema = ''temporal'',
         data = [(''55'', [(''O'', ''Caries'')])]\<rparr>
        [(1, ''adulto'', JsonChart [(''16'', [(''O'', ''Caries'')])])]
       = [(1, ''temporal'', JsonChart [(''55'', [(''O'', ''Caries'')])])]
   \<and> map_of (save \<lparr>patient_id = Some 1, esquema = ''temporal'',
         data = [(''55'', [(''O'', ''Caries'')])]\<rparr>
        [(1, ''adulto'', JsonChart [(''16'', [(''O'', ''Caries'')])])]) 1
       = Some (''temporal'', json_dumps [(''55'', [(''O'', ''Caries'')])])"
proof -
  let ?self = "\<lparr>patient_id = Some 1, esquema = ''temporal'',
         data = [(''55'', [(''O'', ''Caries'')])]\<rparr>"
  let ?tbl = "[(1::int, ''adulto'', JsonChart [(''16'', [(''O'', ''Caries'')])])]"
  have h1: "py_dict ?tbl" by (simp add: py_dict_def)
  have h2: "patient_id ?self = Some 1" by simp
  have h3: "(1::int) \<noteq> 0" by simp
  have m: "map_of (save ?self ?tbl) 1 = Some (esquema ?self, json_dumps (data ?self))"
    using save_one_row_per_patient [OF h1 h2 h3] by blast
  have e: "save ?self ?tbl = [(1, ''temporal'', JsonChart [(''55'', [(''O'', ''Caries'')])])]"
    by (simp add: save_def json_dumps_def)
  show ?thesis using h1 m e by simp
qed

text \<open>
  The tab's own reload (\<^verbatim>\<open>_reload\<close>, bound to both scheme buttons, calls
  \<^verbatim>\<open>load\<close>) puts the selector back to the scheme of the stored row.
\<close>

lemma load_esquema:
  "patient_id tab = Some pid \<Longrightarrow> pid \<noteq> 0 \<Longrightarrow> map_of tbl pid = Some (esq, dj) \<Longrightarrow>
   esquema (load tab tbl) = esq"
  by (simp add: load_def Let_def)

section \<open>Properties of the periodontics tab\<close>

subsection \<open>The metrics never divide by zero\<close>

















subsection \<open>The derived attachment level\<close>

text \<open>
  Claim C4. At a site whose NI entry holds the text \<^verbatim>\<open>N/A\<close>, the attachment level in
  the row that \<^verbatim>\<open>save_all_to_db\<close> hands to its INSERT statement, and the attachment
  level that \<^verbatim>\<open>calculate_metrics\<close> adds to its sum, are both the probing depth of the
  site minus the gingival margin of the tooth, each as \<^verbatim>\<open>_to_float\<close> reads it. With the
  texts \<^verbatim>\<open>3.5\<close> and \<^verbatim>\<open>1\<close> that difference is 2.5.
\<close>

theorem attachment_level_derived:
  assumes "wf_vars vals" and "i < 6" and "v_ni vals ! i = ''N/A''"
  shows "site_row pid pieza vals (to_float (v_mg vals)) mov nota i sitio =
           Inr \<lparr>r_patient_id = pid, r_pieza = pieza, r_sitio = sitio,
                r_ps = to_float (v_ps vals ! i), r_mg = to_float (v_mg vals),
                r_ni = fsub (to_float (v_ps vals ! i)) (to_float (v_mg vals)),
                r_ss = v_ss vals ! i, r_sup = v_sup vals ! i, r_mov = mov, r_nota = nota\<rparr>
         \<and> metrics_site vals (to_float (v_mg vals)) i (total_ps, total_ni, sas, sites) =
           Inr (fadd total_ps (to_float (v_ps vals ! i)),
                fadd total_ni (fsub (to_float (v_ps vals ! i)) (to_float (v_mg vals))),
                sas + v_ss vals ! i, sites + 1)
         \<and> fsub (to_float ''3.5'') (to_float ''1'') = Finite (5 / 2)"
proof -
  have ex: "fsub (to_float ''3.5'') (to_float ''1'') = Finite (5 / 2)"
    by code_simp
  show ?thesis
    using assms ex
    by (simp add: site_row_def metrics_site_def py_nth_def wf_vars_def Let_def)
qed

text \<open>
  The theorem at the first site of a column with probing depth \<^verbatim>\<open>3.5\<close> and margin
  \<^verbatim>\<open>1\<close>: the row's attachment level is 2.5.
\<close>

theorem attachment_level_derived_witness:
  "wf_vars (build_tooth_column\<lparr>v_ps := [''3.5'', ''0'', ''0'', ''0'', ''0'', ''0''], v_mg := ''1''\<rparr>)
   \<and> (0::nat) < 6
   \<and> v_ni (build_tooth_column\<lparr>v_ps := [''3.5'', ''0'', ''0'', ''0'', ''0'', ''0''],
         v_mg := ''1''\<rparr>) ! 0 = ''N/A''
   \<and> r_ni (projr (site_row 1 ''16''
         (build_tooth_column\<lparr>v_ps := [''3.5'', ''0'', ''0'', ''0'', ''0'', ''0''], v_mg := ''1''\<rparr>)
         (to_float ''1'') 0 '''' 0 ''MB'')) = Finite (5 / 2)"
proof -
  let ?vals = "build_tooth_column\<lparr>v_ps := [''3.5'', ''0'', ''0'', ''0'', ''0'', ''0''],
         v_mg := ''1''\<rparr>"
  have h1: "wf_vars ?vals" by (simp add: wf_vars_def build_tooth_column_def)
  have h2: "(0::nat) < 6" by simp
  have h3: "v_ni ?vals ! 0 = ''N/A''" by (simp add: build_tooth_column_def)
  have mg: "v_mg ?vals = ''1''" by simp
  have ps: "v_ps ?vals ! 0 = ''3.5''" by simp
  from attachment_level_derived [OF h1 h2 h3, of 1 "''16''" 0 "''''" "''MB''"]
  have "r_ni (projr (site_row 1 ''16'' ?vals (to_float (v_mg ?vals)) 0 '''' 0 ''MB''))
          = fsub (to_float (v_ps ?vals ! 0)) (to_float (v_mg ?vals))"
    and "fsub (to_float ''3.5'') (to_float ''1'') = Finite (5 / 2)"
    by simp_all
  then have "r_ni (projr (site_row 1 ''16'' ?vals (to_float ''1'') 0 '''' 0 ''MB'')) = Finite (5 / 2)"
    by (simp only: mg ps)
  with h1 h2 h3 show ?thesis by (intro conjI)
qed

subsection \<open>Saving the periodontics form\<close>

text \<open>
  The two readers are total: text that \<^verbatim>\<open>float\<close> refuses reads as zero, and so does an
  infinity or not-a-number when an int is wanted.
\<close>

lemma to_float_unparsed: "py_float s = None \<Longrightarrow> to_float s = Finite 0"
  by (simp add: to_float_def)

lemma to_int_unparsed: "py_float s = None \<Longrightarrow> to_int s = 0"
  by (simp add: to_int_def)

lemma to_int_not_finite:
  "py_float s = Some x \<Longrightarrow> x \<in> {PosInf, NegInf, NaN} \<Longrightarrow> to_int s = 0"
  by (auto simp add: to_int_def int_of_float_def)

text \<open>
  The statement of \<^verbatim>\<open>save_all_to_db\<close> names the column \<^verbatim>\<open>nota\<close>, which the table
  of \<^verbatim>\<open>init_db\<close> does not have: on that table the first INSERT is refused.
\<close>

lemma insert_fresh_table:
  "insert_or_replace (init_db_periodontics None) r = Inl OperationalError"
  by (simp add: insert_or_replace_def init_db_periodontics_def insert_columns_def)

lemma save_teeth_fresh_table:
  assumes "wf_vars vals"
  shows "save_teeth pid ((pieza, vals) # rest) (init_db_periodontics None) = Inl OperationalError"
proof -
  have "\<exists>r. site_row pid pieza vals mg mov nota 0 sitio = Inr r" for mg mov nota sitio
    using assms by (simp add: site_row_def py_nth_def wf_vars_def Let_def)
  then obtain r where
    "site_row pid pieza vals (to_float (v_mg vals)) (to_int (v_mov vals)) (v_nota vals) 0 ''MB''
       = Inr r"
    by blast
  then show ?thesis
    by (simp add: SITIOS_def insert_fresh_table Let_def)
qed

text \<open>
  Claim C9 says that text which does not parse is stored as zero and that
  \<^verbatim>\<open>save_all_to_db\<close> does not raise on it. The readers do coerce it to zero
  (\<open>to_float_unparsed\<close>, \<open>to_int_unparsed\<close>), but the save itself fails: with
  patient 1 selected, the probing depth of the first site of pieza 18 set to the text
  \<^verbatim>\<open>abc\<close>, and the table as \<^verbatim>\<open>init_db\<close> creates it, \<^verbatim>\<open>save_all_to_db\<close> ends in
  OperationalError and stores nothing.
\<close>

theorem save_all_to_db_fresh_table_raises:
  "save_all_to_db (Some 1)
     ((''18'', build_tooth_column\<lparr>v_ps := [''abc'', ''0'', ''0'', ''0'', ''0'', ''0'']\<rparr>)
        # tl initial_widgets)
     (init_db_periodontics None) = Inl OperationalError"
proof -
  have "wf_vars (build_tooth_column\<lparr>v_ps := [''abc'', ''0'', ''0'', ''0'', ''0'', ''0'']\<rparr>)"
    by (simp add: wf_vars_def build_tooth_column_def)
  from save_teeth_fresh_table [OF this] show ?thesis by (simp add: save_all_to_db_def)
qed

text \<open>With the column in place every row computation and every INSERT succeeds.\<close>

lemma site_row_ok:
  "wf_vars vals \<Longrightarrow> i < 6 \<Longrightarrow> \<exists>r. site_row pid pieza vals mg mov nota i sitio = Inr r"
  by (simp add: site_row_def py_nth_def wf_vars_def Let_def)

lemma save_sites_ok:
  assumes "wf_vars vals" and "set insert_columns \<subseteq> set (columns tbl)"
    and "\<forall>p \<in> set sites. fst p < 6"
  shows "\<exists>tbl'. save_sites pid pieza vals mg mov nota sites tbl = Inr tbl'
           \<and> columns tbl' = columns tbl"
  using assms(2,3)
proof (induction sites arbitrary: tbl)
  case Nil
  show ?case by simp
next
  case (Cons p sites)
  obtain i sitio where p: "p = (i, sitio)" by (cases p)
  have "i < 6" using Cons.prems(2) p by simp
  from site_row_ok [OF assms(1) this, of pid pieza mg mov nota sitio]
  obtain r where r: "site_row pid pieza vals mg mov nota i sitio = Inr r" by blast
  let ?t = "tbl\<lparr>rows := filter (\<lambda>x. \<not> same_site x r) (rows tbl) @ [r]\<rparr>"
  have ins: "insert_or_replace tbl r = Inr ?t"
    using Cons.prems(1) by (simp add: insert_or_replace_def)
  have c: "set insert_columns \<subseteq> set (columns ?t)" using Cons.prems(1) by simp
  have s: "\<forall>p \<in> set sites. fst p < 6" using Cons.prems(2) by simp
  from Cons.IH [OF c s]
  obtain tbl' where "save_sites pid pieza vals mg mov nota sites ?t = Inr tbl'"
    and "columns tbl' = columns ?t" by blast
  then show ?case using r ins p by simp
qed

lemma save_teeth_ok:
  assumes "set insert_columns \<subseteq> set (columns tbl)"
    and "\<forall>vals \<in> snd ` set w. wf_vars vals"
  shows "\<exists>tbl'. save_teeth pid w tbl = Inr tbl' \<and> columns tbl' = columns tbl"
  using assms
proof (induction w arbitrary: tbl)
  case Nil
  show ?case by simp
next
  case (Cons pv w)
  obtain pieza vals where pv: "pv = (pieza, vals)" by (cases pv)
  have wf: "wf_vars vals" using Cons.prems(2) pv by simp
  have six: "\<forall>p \<in> set (enumerate 0 SITIOS). fst p < 6"
    by (auto simp add: SITIOS_def in_set_enumerate_eq)
  from save_sites_ok [OF wf Cons.prems(1) six,
      of pid pieza "to_float (v_mg vals)" "to_int (v_mov vals)" "v_nota vals"]
  obtain t1 where s1: "save_sites pid pieza vals (to_float (v_mg vals)) (to_int (v_mov vals))
       (v_nota vals) (enumerate 0 SITIOS) tbl = Inr t1"
    and c1: "columns t1 = columns tbl" by blast
  have c: "set insert_columns \<subseteq> set (columns t1)" using Cons.prems(1) c1 by simp
  have r: "\<forall>vals \<in> snd ` set w. wf_vars vals" using Cons.prems(2) by simp
  from Cons.IH [OF c r] obtain tbl' where "save_teeth pid w t1 = Inr tbl'"
    and "columns tbl' = columns t1" by blast
  then show ?case using s1 c1 pv by (simp add: Let_def)
qed

lemma save_all_to_db_with_column:
  assumes "set insert_columns \<subseteq> set (columns tbl)" and "wf_widgets w"
  shows "\<exists>tbl'. save_all_to_db patient w tbl = Inr tbl'"
proof -
  have "\<forall>vals \<in> snd ` set w. wf_vars vals" using assms(2) by (simp add: wf_widgets_def)
  from save_teeth_ok [OF assms(1) this]
  show ?thesis by (auto simp add: save_all_to_db_def split: option.splits)
qed


lemma site_row_key:
  "site_row pid pieza vals mg mov nota i sitio = Inr r \<Longrightarrow>
     r_patient_id r = pid \<and> r_pieza r = pieza \<and> r_sitio r = sitio"
  by (auto simp add: site_row_def Let_def split: sum.splits)

lemma save_sites_rows:
  assumes "save_sites pid pieza vals mg mov nota sites tbl = Inr tbl'"
  shows "(\<forall>x \<in> set (rows tbl).
            \<not> (r_patient_id x = pid \<and> r_pieza x = pieza \<and> r_sitio x \<in> snd ` set sites)
            \<longrightarrow> x \<in> set (rows tbl'))
         \<and> (distinct (map snd sites) \<longrightarrow>
              (\<forall>p \<in> set sites.
                 projr (site_row pid pieza vals mg mov nota (fst p) (snd p)) \<in> set (rows tbl')))"
  using assms
proof (induction sites arbitrary: tbl)
  case Nil
  then show ?case by simp
next
  case (Cons p sites)
  obtain i sitio where p: "p = (i, sitio)" by (cases p)
  from Cons.prems p obtain r t where
    r: "site_row pid pieza vals mg mov nota i sitio = Inr r"
    and ins: "insert_or_replace tbl r = Inr t"
    and rest: "save_sites pid pieza vals mg mov nota sites t = Inr tbl'"
    by (auto split: sum.splits)
  have t: "rows t = filter (\<lambda>x. \<not> same_site x r) (rows tbl) @ [r]"
    using ins by (auto simp add: insert_or_replace_def split: if_splits)
  have key: "r_patient_id r = pid \<and> r_pieza r = pieza \<and> r_sitio r = sitio"
    using site_row_key [OF r] .
  note ih = Cons.IH [OF rest]
  have keep: "x \<in> set (rows tbl')"
    if "x \<in> set (rows t)"
      and "\<not> (r_patient_id x = pid \<and> r_pieza x = pieza \<and> r_sitio x \<in> snd ` set sites)" for x
    using ih that by blast
  show ?case
  proof (intro conjI ballI impI)
    fix x assume x: "x \<in> set (rows tbl)"
      and n: "\<not> (r_patient_id x = pid \<and> r_pieza x = pieza
                 \<and> r_sitio x \<in> snd ` set (p # sites))"
    have "\<not> same_site x r" using n key p by (auto simp add: same_site_def)
    then have "x \<in> set (rows t)" using x t by simp
    moreover have "\<not> (r_patient_id x = pid \<and> r_pieza x = pieza
                       \<and> r_sitio x \<in> snd ` set sites)"
      using n by auto
    ultimately show "x \<in> set (rows tbl')" by (rule keep)
  next
    fix q assume d: "distinct (map snd (p # sites))" and q: "q \<in> set (p # sites)"
    show "projr (site_row pid pieza vals mg mov nota (fst q) (snd q)) \<in> set (rows tbl')"
    proof (cases "q = p")
      case True
      have "sitio \<notin> snd ` set sites" using d p by auto
      then have "\<not> (r_patient_id r = pid \<and> r_pieza r = pieza
                      \<and> r_sitio r \<in> snd ` set sites)"
        using key by simp
      moreover have "r \<in> set (rows t)" using t by simp
      ultimately have "r \<in> set (rows tbl')" by (rule keep [rotated])
      then show ?thesis using True p r by simp
    next
      case False
      then have "q \<in> set sites" using q by simp
      moreover have "distinct (map snd sites)" using d by simp
      ultimately show ?thesis using ih by blast
    qed
  qed
qed


lemma save_sites_each:
  "save_sites pid pieza vals mg mov nota sites tbl = Inr tbl' \<Longrightarrow> p \<in> set sites \<Longrightarrow>
     \<exists>r. site_row pid pieza vals mg mov nota (fst p) (snd p) = Inr r"
  by (induction sites arbitrary: tbl) (auto split: sum.splits)

lemma save_teeth_rows:
  assumes "save_teeth pid w tbl = Inr tbl'"
  shows "(\<forall>x \<in> set (rows tbl).
            \<not> (r_patient_id x = pid \<and> r_pieza x \<in> fst ` set w) \<longrightarrow> x \<in> set (rows tbl'))
         \<and> (distinct (map fst w) \<longrightarrow>
              (\<forall>pv \<in> set w. \<forall>p \<in> set (enumerate 0 SITIOS).
                 projr (site_row pid (fst pv) (snd pv) (to_float (v_mg (snd pv)))
                          (to_int (v_mov (snd pv))) (v_nota (snd pv)) (fst p) (snd p))
                   \<in> set (rows tbl')))"
  using assms
proof (induction w arbitrary: tbl)
  case Nil
  then show ?case by simp
next
  case (Cons pv w)
  obtain pieza vals where pv: "pv = (pieza, vals)" by (cases pv)
  let ?mg = "to_float (v_mg vals)" and ?mov = "to_int (v_mov vals)" and ?nota = "v_nota vals"
  from Cons.prems pv obtain t1 where
    s1: "save_sites pid pieza vals ?mg ?mov ?nota (enumerate 0 SITIOS) tbl = Inr t1"
    and rest: "save_teeth pid w t1 = Inr tbl'"
    by (auto simp add: Let_def split: sum.splits)
  note ih = Cons.IH [OF rest]
  have ds: "distinct (map snd (enumerate 0 SITIOS))" by (simp add: SITIOS_def)
  have sn: "snd ` set (enumerate 0 SITIOS) = set SITIOS"
    by (metis list.set_map map_snd_enumerate)
  from save_sites_rows [OF s1] ds
  have a1: "\<And>x. x \<in> set (rows tbl) \<Longrightarrow>
             \<not> (r_patient_id x = pid \<and> r_pieza x = pieza \<and> r_sitio x \<in> set SITIOS)
             \<Longrightarrow> x \<in> set (rows t1)"
    and b1: "\<And>p. p \<in> set (enumerate 0 SITIOS) \<Longrightarrow>
             projr (site_row pid pieza vals ?mg ?mov ?nota (fst p) (snd p)) \<in> set (rows t1)"
    unfolding sn by blast+
  show ?case
  proof (intro conjI ballI impI)
    fix x assume x: "x \<in> set (rows tbl)"
      and n: "\<not> (r_patient_id x = pid \<and> r_pieza x \<in> fst ` set (pv # w))"
    have "x \<in> set (rows t1)" using a1 [OF x] n pv by auto
    moreover have "\<not> (r_patient_id x = pid \<and> r_pieza x \<in> fst ` set w)" using n by auto
    ultimately show "x \<in> set (rows tbl')" using ih by blast
  next
    fix qv p assume d: "distinct (map fst (pv # w))" and q: "qv \<in> set (pv # w)"
      and p: "p \<in> set (enumerate 0 SITIOS)"
    show "projr (site_row pid (fst qv) (snd qv) (to_float (v_mg (snd qv)))
                   (to_int (v_mov (snd qv))) (v_nota (snd qv)) (fst p) (snd p))
            \<in> set (rows tbl')"
    proof (cases "qv = pv")
      case True
      let ?r = "projr (site_row pid pieza vals ?mg ?mov ?nota (fst p) (snd p))"
      from save_sites_each [OF s1 p]
      have "site_row pid pieza vals ?mg ?mov ?nota (fst p) (snd p) = Inr ?r" by auto
      from site_row_key [OF this] have "r_pieza ?r = pieza" by simp
      moreover have "pieza \<notin> fst ` set w" using d pv by auto
      ultimately have "\<not> (r_patient_id ?r = pid \<and> r_pieza ?r \<in> fst ` set w)" by simp
      moreover have "?r \<in> set (rows t1)" by (rule b1 [OF p])
      ultimately have "?r \<in> set (rows tbl')" using ih by blast
      then show ?thesis using True pv by simp
    next
      case False
      then have "qv \<in> set w" using q by simp
      moreover have "distinct (map fst w)" using d by simp
      ultimately show ?thesis using ih p by blast
    qed
  qed
qed

text \<open>
  On a table that has the column \<^verbatim>\<open>nota\<close> the save goes through, whatever the
  texts, and the table then holds the row of every tooth and site of the form: text
  that does not parse is stored as zero.
\<close>

lemma save_all_to_db_stores:
  assumes "set insert_columns \<subseteq> set (columns tbl)" and "wf_widgets w" and "pid \<noteq> 0"
    and "(pieza, vals) \<in> set w" and "i < 6"
  shows "\<exists>tbl' r. save_all_to_db (Some pid) w tbl = Inr tbl' \<and> r \<in> set (rows tbl')
           \<and> r_patient_id r = pid \<and> r_pieza r = pieza \<and> r_sitio r = SITIOS ! i
           \<and> r_ps r = to_float (v_ps vals ! i) \<and> r_mg r = to_float (v_mg vals)
           \<and> r_mov r = to_int (v_mov vals)
           \<and> r_ni r = (if v_ni vals ! i = ''N/A''
                        then fsub (to_float (v_ps vals ! i)) (to_float (v_mg vals))
                        else to_float (v_ni vals ! i))"
proof -
  from save_all_to_db_with_column [OF assms(1,2), of "Some pid"]
  obtain tbl' where s: "save_all_to_db (Some pid) w tbl = Inr tbl'" by blast
  then have st: "save_teeth pid w tbl = Inr tbl'" using assms(3) by (simp add: save_all_to_db_def)
  have d: "distinct (map fst w)" using assms(2) by (simp add: wf_widgets_def py_dict_def)
  have wf: "wf_vars vals" using assms(2,4) unfolding wf_widgets_def by force
  have "length SITIOS = 6" by (simp add: SITIOS_def)
  then have p: "(i, SITIOS ! i) \<in> set (enumerate 0 SITIOS)"
    using assms(5) by (simp add: in_set_enumerate_eq)
  let ?r = "projr (site_row pid pieza vals (to_float (v_mg vals)) (to_int (v_mov vals))
                     (v_nota vals) i (SITIOS ! i))"
  from save_teeth_rows [OF st] d assms(4) p
  have m: "?r \<in> set (rows tbl')" by force
  have v: "site_row pid pieza vals (to_float (v_mg vals)) (to_int (v_mov vals))
                     (v_nota vals) i (SITIOS ! i)
           = Inr \<lparr>r_patient_id = pid, r_pieza = pieza, r_sitio = SITIOS ! i,
                  r_ps = to_float (v_ps vals ! i), r_mg = to_float (v_mg vals),
                  r_ni = (if v_ni vals ! i = ''N/A''
                          then fsub (to_float (v_ps vals ! i)) (to_float (v_mg vals))
                          else to_float (v_ni vals ! i)),
                  r_ss = v_ss vals ! i, r_sup = v_sup vals ! i,
                  r_mov = to_int (v_mov vals), r_nota = v_nota vals\<rparr>"
    using wf assms(5) by (simp add: site_row_def py_nth_def wf_vars_def Let_def)
  show ?thesis using s m v by (intro exI [of _ tbl'] exI [of _ ?r]) simp
qed

subsection \<open>Importing skips what it does not know\<close>


















section \<open>Properties of the periodontogram of sistema\_odontologico.py\<close>

subsection \<open>Validation before the save\<close>

lemma validate_tooth_Some:
  "validate_tooth entries t = Some (field, t') \<Longrightarrow>
     t' = t \<and> refused entries t (field_suffix field)"
  by (auto simp add: validate_tooth_def refused_def field_suffix_def split: if_splits)

lemma validate_tooth_None:
  "validate_tooth entries t = None \<longleftrightarrow>
     (\<forall>suffix \<in> set checked_suffixes. \<not> refused entries t suffix)"
  by (simp add: validate_tooth_def refused_def checked_suffixes_def)

lemma validate_all_Some:
  "validate_all entries ts = Some (field, t) \<Longrightarrow>
     t \<in> set ts \<and> refused entries t (field_suffix field)"
  by (induction ts) (auto split: option.splits dest: validate_tooth_Some)

lemma validate_all_None:
  "validate_all entries ts = None \<longleftrightarrow> (\<forall>t \<in> set ts. validate_tooth entries t = None)"
  by (induction ts) (auto split: option.splits)

text \<open>
  Claim C5, amended. With a patient selected, if some checked entry of some tooth (PS, MG
  or NI of either face, or the mobility) holds a text that its check refuses, namely a
  text that is not empty and is not digits with at most one point, or for the mobility
  is not empty and not all digits, then the save ends in the warning of the first check
  that fails. The warning names a field and a tooth of the grid whose text is refused,
  and the table is as it was: nothing is deleted or written. The form is no result of the
  save at all, so it is unchanged too.
\<close>

theorem save_perio_rejects_refused:
  assumes "pid \<noteq> 0" and "tooth_num \<in> set all_teeth"
    and "suffix \<in> set checked_suffixes" and "refused entries tooth_num suffix"
  shows "\<exists>field t.
           save_perio_measurements (Some pid) entries db = Rejected field t
           \<and> t \<in> set all_teeth
           \<and> refused entries t (field_suffix field)
           \<and> table_after db (save_perio_measurements (Some pid) entries db) = db"
proof -
  have "validate_tooth entries tooth_num \<noteq> None"
    using assms(3,4) by (auto simp add: validate_tooth_None)
  then have "validate_all entries all_teeth \<noteq> None"
    using assms(2) by (auto simp add: validate_all_None)
  then obtain field t where v: "validate_all entries all_teeth = Some (field, t)"
    by auto
  from validate_all_Some [OF v]
  have t: "t \<in> set all_teeth" and r: "refused entries t (field_suffix field)" by simp_all
  have s: "save_perio_measurements (Some pid) entries db = Rejected field t"
    using assms(1) v by (simp add: save_perio_measurements_def)
  show ?thesis using s t r by (simp add: table_after_def)
qed


lemma entry_text_update:
  "entry_text (AList.update (t, suffix) (StringVar s) entries) t suffix = Some s"
  by (simp add: entry_text_def AList.update_conv')

lemma grid_values:
  "(key, v) \<in> set draw_periodontogram_grid \<Longrightarrow> v = StringVar [] \<or> v = BooleanVar False"
  by (auto simp add: draw_periodontogram_grid_def jaw_entries_def)

lemma grid_text: "entry_text draw_periodontogram_grid t suffix = Some s \<Longrightarrow> s = []"
  by (auto simp add: entry_text_def split: option.splits tk_var.splits
      dest!: map_of_SomeD grid_values)

lemma grid_not_refused: "\<not> refused draw_periodontogram_grid t suffix"
  using grid_text [of t suffix]
  by (cases "entry_text draw_periodontogram_grid t suffix")
     (auto simp add: refused_def bad_decimal_def bad_integer_def)

lemma grid_valid: "validate_all draw_periodontogram_grid ts = None"
  by (simp add: validate_all_None validate_tooth_None grid_not_refused)

lemma grid_float: "float_or_none (entry_text draw_periodontogram_grid t suffix) = Inr None"
  using grid_text [of t suffix]
  by (cases "entry_text draw_periodontogram_grid t suffix") (auto simp add: float_or_none_def)

lemma grid_int: "int_or_none (entry_text draw_periodontogram_grid t suffix) = Inr None"
  using grid_text [of t suffix]
  by (cases "entry_text draw_periodontogram_grid t suffix") (auto simp add: int_or_none_def)

lemma insert_teeth_ok:
  "\<forall>t \<in> set ts. tooth_record entries pid t = Inr (f t) \<and> bindable (f t) \<Longrightarrow>
     insert_teeth entries pid ts db = (db @ map (\<lambda>t. stored (f t)) ts, None)"
  by (induction ts arbitrary: db) auto

lemma all_teeth_fit: "t \<in> set all_teeth \<Longrightarrow> sqlite_int t"
  by (auto simp add: all_teeth_def sqlite_int_def)

lemma grid_record:
  "\<exists>r. tooth_record draw_periodontogram_grid pid t = Inr r \<and> ps_buccal r = None
        \<and> g_tooth_number r = t \<and> g_patient_id r = pid \<and> mobility r = None"
  by (simp add: tooth_record_def grid_float grid_int)


lemma grid_first: "entry_text draw_periodontogram_grid 18 ''Bucal_ps'' = Some []"
  by (simp add: entry_text_def draw_periodontogram_grid_def jaw_entries_def upper_teeth_def
      grid_rows_def)

lemma save_grid:
  "pid \<noteq> 0 \<Longrightarrow> sqlite_int pid \<Longrightarrow>
   save_perio_measurements (Some pid) draw_periodontogram_grid db =
     Saved (filter (\<lambda>r. g_patient_id r \<noteq> pid) db
            @ map (\<lambda>t. stored (projr (tooth_record draw_periodontogram_grid pid t)))
                all_teeth)"
proof -
  assume p: "pid \<noteq> 0" and q: "sqlite_int pid"
  let ?f = "\<lambda>t. projr (tooth_record draw_periodontogram_grid pid t)"
  have "\<forall>t \<in> set all_teeth.
          tooth_record draw_periodontogram_grid pid t = Inr (?f t) \<and> bindable (?f t)"
  proof
    fix t assume t: "t \<in> set all_teeth"
    from grid_record [of pid t] obtain r where
      r: "tooth_record draw_periodontogram_grid pid t = Inr r"
      and k: "g_tooth_number r = t" "g_patient_id r = pid" "mobility r = None"
      by blast
    have "bindable r" using k q all_teeth_fit [OF t] by (simp add: bindable_def)
    then show "tooth_record draw_periodontogram_grid pid t = Inr (?f t) \<and> bindable (?f t)"
      using r by simp
  qed
  from insert_teeth_ok [OF this]
  show ?thesis using p q by (simp add: save_perio_measurements_def grid_valid Let_def)
qed

text \<open>
  Claim C5 as stated asks that every probing depth or margin that does not parse as
  a number be rejected and the stored state be left alone. The empty text does not parse
  (\<^verbatim>\<open>float('')\<close> raises) and is accepted by design (\<^verbatim>\<open>if ps_b and ...\<close>): on the grid as
  drawn, where every entry is empty, the save of patient 1 goes through and replaces
  the patient's stored row.
\<close>

theorem save_perio_accepts_empty_counterexample:
  "entry_text draw_periodontogram_grid 18 ''Bucal_ps'' = Some []
   \<and> py_float [] = None
   \<and> is_saved (save_perio_measurements (Some 1) draw_periodontogram_grid
        [\<lparr>g_patient_id = 1, g_tooth_number = 18, ps_buccal = Some (Finite 3),
          mg_buccal = None, ni_buccal = None, ps_lingual = None, mg_lingual = None,
          ni_lingual = None, bleeding_buccal = None, suppuration_buccal = None,
          bleeding_lingual = None, suppuration_lingual = None, mobility = Some 2,
          furcation = None\<rparr>])
   \<and> table_after
        [\<lparr>g_patient_id = 1, g_tooth_number = 18, ps_buccal = Some (Finite 3),
          mg_buccal = None, ni_buccal = None, ps_lingual = None, mg_lingual = None,
          ni_lingual = None, bleeding_buccal = None, suppuration_buccal = None,
          bleeding_lingual = None, suppuration_lingual = None, mobility = Some 2,
          furcation = None\<rparr>]
        (save_perio_measurements (Some 1) draw_periodontogram_grid
        [\<lparr>g_patient_id = 1, g_tooth_number = 18, ps_buccal = Some (Finite 3),
          mg_buccal = None, ni_buccal = None, ps_lingual = None, mg_lingual = None,
          ni_lingual = None, bleeding_buccal = None, suppuration_buccal = None,
          bleeding_lingual = None, suppuration_lingual = None, mobility = Some 2,
          furcation = None\<rparr>])
       \<noteq> [\<lparr>g_patient_id = 1, g_tooth_number = 18, ps_buccal = Some (Finite 3),
          mg_buccal = None, ni_buccal = None, ps_lingual = None, mg_lingual = None,
          ni_lingual = None, bleeding_buccal = None, suppuration_buccal = None,
          bleeding_lingual = None, suppuration_lingual = None, mobility = Some 2,
          furcation = None\<rparr>]"
proof -
  let ?old = "[\<lparr>g_patient_id = 1, g_tooth_number = 18, ps_buccal = Some (Finite 3),
          mg_buccal = None, ni_buccal = None, ps_lingual = None, mg_lingual = None,
          ni_lingual = None, bleeding_buccal = None, suppuration_buccal = None,
          bleeding_lingual = None, suppuration_lingual = None, mobility = Some 2,
          furcation = None\<rparr>]"
  let ?new = "map (\<lambda>t. stored (projr (tooth_record draw_periodontogram_grid 1 t))) all_teeth"
  have "sqlite_int 1" by (simp add: sqlite_int_def)
  then have s: "save_perio_measurements (Some 1) draw_periodontogram_grid ?old = Saved ?new"
    using save_grid [of 1 ?old] by simp
  have f: "py_float [] = None" by code_simp
  have "length ?new = 32" by (simp add: all_teeth_def)
  moreover have "length ?old = 1" by simp
  ultimately have "?new \<noteq> ?old" by (metis numeral_eq_one_iff semiring_norm(85))
  then show ?thesis using s f grid_first by (simp add: is_saved_def table_after_def)
qed

text \<open>
  The theorem at the grid with the text \<^verbatim>\<open>abc\<close> as buccal probing depth of tooth 18.
\<close>

theorem save_perio_rejects_refused_witness:
  "(1::int) \<noteq> 0 \<and> (18::int) \<in> set all_teeth \<and> ''Bucal_ps'' \<in> set checked_suffixes
   \<and> refused (AList.update (18, ''Bucal_ps'') (StringVar ''abc'') draw_periodontogram_grid)
         18 ''Bucal_ps''
   \<and> save_perio_measurements (Some 1)
         (AList.update (18, ''Bucal_ps'') (StringVar ''abc'') draw_periodontogram_grid) []
       = Rejected ''PS Bucal'' 18
   \<and> table_after []
         (save_perio_measurements (Some 1)
            (AList.update (18, ''Bucal_ps'') (StringVar ''abc'') draw_periodontogram_grid) [])
       = []"
proof -
  let ?en = "AList.update (18, ''Bucal_ps'') (StringVar ''abc'') draw_periodontogram_grid"
  have h1: "(1::int) \<noteq> 0" by simp
  have h2: "(18::int) \<in> set all_teeth" by (simp add: all_teeth_def)
  have h3: "''Bucal_ps'' \<in> set checked_suffixes" by (simp add: checked_suffixes_def)
  have d: "str_isdigit (remove1 (CHR ''.'') ''abc'') = False" by code_simp
  have h4: "refused ?en 18 ''Bucal_ps''"
    using d by (simp add: refused_def entry_text_update bad_decimal_def)
  have b: "bad_decimal (entry_text ?en 18 ''Bucal_ps'')"
    using d by (simp add: entry_text_update bad_decimal_def)
  have v: "save_perio_measurements (Some 1) ?en [] = Rejected ''PS Bucal'' 18"
    using b by (simp add: save_perio_measurements_def all_teeth_def validate_tooth_def)
  from save_perio_rejects_refused [OF h1 h2 h3 h4, of "[]"]
  have "table_after [] (save_perio_measurements (Some 1) ?en []) = []" by blast
  with h1 h2 h3 h4 v show ?thesis by (intro conjI)
qed

subsection \<open>What is stored for a valid form\<close>

text \<open>
  On texts of decimal digits with at most one point the readers \<^const>\<open>py_float\<close> and
  \<^const>\<open>py_int\<close> succeed.
\<close>

lemma decimal_not_special:
  assumes "is_decimal c"
  shows "\<not> is_space c" and "c \<noteq> CHR ''-''" and "c \<noteq> CHR ''+''" and "c \<noteq> CHR ''_''"
    and "c \<noteq> CHR ''.''" and "ascii_lower c = c" and "c \<noteq> CHR ''i''" and "c \<noteq> CHR ''n''"
  using assms by (auto simp add: is_decimal_def is_space_def ascii_lower_def Let_def)


lemma more_digits_all:
  "list_all is_decimal ds \<Longrightarrow> more_digits acc ds = (acc @ ds, [])"
  by (induction acc ds rule: more_digits.induct) auto


lemma digitpart_all:
  "ds \<noteq> [] \<Longrightarrow> list_all is_decimal ds \<Longrightarrow> digitpart ds = Some (ds, [])"
  by (cases ds) (simp_all add: digitpart_def more_digits_all)



lemma py_strip_plain: "list_all (\<lambda>c. \<not> is_space c) s \<Longrightarrow> py_strip s = s"
proof -
  assume a: "list_all (\<lambda>c. \<not> is_space c) s"
  have d: "dropWhile is_space xs = xs" if "list_all (\<lambda>c. \<not> is_space c) xs" for xs
    using that by (cases xs) simp_all
  have "list_all (\<lambda>c. \<not> is_space c) (rev s)" using a by (simp add: list_all_iff)
  then show ?thesis using a by (simp add: py_strip_def d)
qed

lemma split_sign_plain:
  "s = [] \<or> (hd s \<noteq> CHR ''-'' \<and> hd s \<noteq> CHR ''+'') \<Longrightarrow> split_sign s = (False, s)"
  by (cases s) (auto simp add: split_sign_def)

lemma py_int_digits:
  assumes "m \<noteq> []" and "list_all is_decimal m"
  shows "py_int m = (if int_max_str_digits < length m then None
                     else Some (int (digits_value m)))"
proof -
  have ns: "list_all (\<lambda>c. \<not> is_space c) m"
    using assms(2) by (auto simp add: list_all_iff decimal_not_special)
  have "is_decimal (hd m)" using assms by (cases m) simp_all
  then have sg: "split_sign m = (False, m)"
    by (intro split_sign_plain) (auto simp add: decimal_not_special)
  show ?thesis
    by (simp add: py_int_def py_strip_plain [OF ns] sg digitpart_all [OF assms])
qed


















lemma entry_text_update_other:
  "(t', suffix) \<noteq> k \<Longrightarrow>
     entry_text (AList.update k v entries) t' suffix = entry_text entries t' suffix"
  by (simp add: entry_text_def AList.update_conv')

lemma update_not_refused:
  assumes "\<not> refused (AList.update k (StringVar s) draw_periodontogram_grid) (fst k) (snd k)"
  shows "validate_all (AList.update k (StringVar s) draw_periodontogram_grid) ts = None"
proof -
  let ?en = "AList.update k (StringVar s) draw_periodontogram_grid"
  have nr: "\<not> refused ?en t' suffix" for t' suffix
  proof (cases "(t', suffix) = k")
    case True
    then show ?thesis using assms by auto
  next
    case False
    from entry_text_update_other [OF this]
    have e: "entry_text ?en t' suffix = entry_text draw_periodontogram_grid t' suffix" .
    have "refused ?en t' suffix = refused draw_periodontogram_grid t' suffix"
      unfolding refused_def e by (rule refl)
    then show ?thesis by (simp add: grid_not_refused)
  qed
  show ?thesis by (simp add: validate_all_None validate_tooth_None nr)
qed



text \<open>
  A text of 4301 digits is all digits too, and \<^verbatim>\<open>int\<close> refuses it for its length: 4301
  zeros as mobility of tooth 18 pass the checks and raise ValueError after the DELETE.
\<close>

lemma long_mobility_raises_after_delete:
  "save_perio_measurements (Some 1)
     (AList.update (18, ''movilidad'') (StringVar (replicate 4301 (CHR ''0'')))
        draw_periodontogram_grid) db
   = Raised ValueError (filter (\<lambda>r. g_patient_id r \<noteq> 1) db)"
proof -
  let ?m = "replicate 4301 (CHR ''0'')"
  let ?en = "AList.update (18, ''movilidad'') (StringVar ?m) draw_periodontogram_grid"
  have ne: "?m \<noteq> []" by simp
  have dec: "list_all is_decimal ?m" by (simp add: is_decimal_def list_all_iff)
  have own: "\<not> refused ?en 18 ''movilidad''"
    using dec ne
    by (simp add: refused_def entry_text_update bad_integer_def str_isdigit_def
        char_isdigit_def list_all_iff)
  then have v: "validate_all ?en all_teeth = None"
    by (intro update_not_refused) simp
  have fl: "float_or_none (entry_text ?en 18 suffix) = Inr None"
    if "suffix \<noteq> ''movilidad''" for suffix
  proof -
    have "(18::int, suffix) \<noteq> (18, ''movilidad'')" using that by simp
    from entry_text_update_other [OF this] show ?thesis by (simp add: grid_float)
  qed
  have n: "py_int ?m = None"
    unfolding py_int_digits [OF ne dec] by (simp add: int_max_str_digits_def)
  have i: "int_or_none (entry_text ?en 18 ''movilidad'') = Inl ValueError"
    using ne by (simp add: entry_text_update int_or_none_def n)
  have "tooth_record ?en 1 18 = Inl ValueError"
    by (simp add: tooth_record_def fl i)
  then have "insert_teeth ?en 1 all_teeth d = (d, Some ValueError)" for d
    by (simp add: all_teeth_def)
  then show ?thesis
    using v by (simp add: save_perio_measurements_def Let_def sqlite_int_def)
qed

text \<open>
  A text that \<^verbatim>\<open>str.isdigit\<close> accepts and \<^verbatim>\<open>float\<close> refuses passes the checks and raises in
  the second loop, after the DELETE: here the superscript two as buccal probing depth of
  tooth 18. The rows of the patient are gone from the open transaction.
\<close>

lemma superscript_raises_after_delete:
  "save_perio_measurements (Some 1)
     (AList.update (18, ''Bucal_ps'') (StringVar [CHR 0xB2]) draw_periodontogram_grid) db
   = Raised ValueError (filter (\<lambda>r. g_patient_id r \<noteq> 1) db)"
proof -
  let ?en = "AList.update (18, ''Bucal_ps'') (StringVar [CHR 0xB2]) draw_periodontogram_grid"
  have own: "\<not> refused ?en 18 ''Bucal_ps''"
    by (simp add: refused_def entry_text_update bad_decimal_def str_isdigit_def
        char_isdigit_def)
  then have v: "validate_all ?en all_teeth = None"
    by (intro update_not_refused) simp
  have f: "py_float [CHR 0xB2] = None" by code_simp
  have "tooth_record ?en 1 18 = Inl ValueError"
    by (simp add: tooth_record_def entry_text_update float_or_none_def f)
  then have "insert_teeth ?en 1 all_teeth d = (d, Some ValueError)" for d
    by (simp add: all_teeth_def)
  then show ?thesis
    by (simp add: save_perio_measurements_def v Let_def sqlite_int_def)
qed

section \<open>Properties of the odontogram of sistema\_odontologico.py\<close>

lemma draw_keys: "fst ` set (draw_teeth n ts objs) = set ts \<union> fst ` set objs"
  by (induction n ts objs rule: draw_teeth.induct) (auto simp add: AList.dom_update)

lemma tooth_55_not_drawn: "(55::int) \<notin> fst ` set draw_odontogram"
  by (simp add: draw_odontogram_def draw_keys)

lemma apply_unknown_tooth:
  "tooth_number \<notin> fst ` set (tooth_objects self) \<Longrightarrow>
     apply_surface_status self tooth_number surface status = self"
  by (simp add: apply_surface_status_def map_of_eq_None_iff [THEN iffD2])

lemma paint_rows_tooth_objects: "tooth_objects (paint_rows self rs) = tooth_objects self"
  by (induction self rs rule: paint_rows.induct) (auto split: option.splits)

lemma paint_rows_append:
  "paint_rows self (xs @ ys) = paint_rows (paint_rows self xs) ys"
  by (induction self xs rule: paint_rows.induct) simp_all

lemma paint_white_tooth_objects: "tooth_objects (paint_white self) = tooth_objects self"
proof -
  have "tooth_objects (foldl (\<lambda>s item. s\<lparr>item_fill := (item_fill s)(item := ''white'')\<rparr>) s items)
          = tooth_objects s" for s items
    by (induction items arbitrary: s) simp_all
  then show ?thesis by (simp add: paint_white_def)
qed


lemma paint_rows_unknown:
  "o_tooth_number row \<notin> fst ` set (tooth_objects self) \<Longrightarrow>
     paint_rows self (row # rest) = paint_rows self rest"
  by (simp add: map_of_eq_None_iff [THEN iffD2])

lemma load_skips_unknown:
  assumes "o_tooth_number row \<notin> fst ` set (tooth_objects self)"
  shows "load_odontogram patient self (pre @ row # post) =
           load_odontogram patient self (pre @ post)"
proof (cases "truthy patient")
  case False
  then show ?thesis by (auto simp add: load_odontogram_def truthy_def split: option.splits)
next
  case True
  then obtain pid where p: "patient = Some pid" "pid \<noteq> 0"
    by (auto simp add: truthy_def split: option.splits)
  let ?P = "\<lambda>row. o_patient_id row = pid"
  let ?s = "paint_rows (paint_white self) (filter ?P pre)"
  have k: "o_tooth_number row \<notin> fst ` set (tooth_objects ?s)"
    using assms by (simp add: paint_rows_tooth_objects paint_white_tooth_objects)
  have "paint_rows ?s (filter ?P (row # post)) = paint_rows ?s (filter ?P post)"
    using paint_rows_unknown [OF k] by simp
  then show ?thesis
    using p by (simp add: load_odontogram_def paint_rows_append)
qed

text \<open>
  Claim C6, amended. A tooth number outside the tooth set of the chart raises nothing:
  \<^verbatim>\<open>apply_surface_status\<close> with such a number leaves the chart exactly as it was,
  \<^verbatim>\<open>load_odontogram\<close> skips a stored row for such a number and paints all the other
  rows, and in the single-file program the status read for a pieza without an entry is
  the default Sano.
\<close>

theorem unknown_tooth_ignored:
  "(tooth_number \<notin> fst ` set (tooth_objects self) \<longrightarrow>
      apply_surface_status self tooth_number surface status = self)
   \<and> (o_tooth_number row \<notin> fst ` set (tooth_objects self) \<longrightarrow>
      load_odontogram patient self (pre @ row # post) =
        load_odontogram patient self (pre @ post))
   \<and> (pieza \<notin> fst ` set d \<longrightarrow> get_status d pieza cara = ''Sano'')"
  using apply_unknown_tooth [of tooth_number self surface status]
    load_skips_unknown [of row self patient pre post]
    dict_get_absent [of pieza d "[]"]
  by (simp add: get_status_def dict_get_def)

text \<open>
  The theorem at the chart as drawn and the primary tooth 55, which the permanent chart
  does not have.
\<close>

theorem unknown_tooth_ignored_witness:
  "(55::int) \<notin> fst ` set (tooth_objects \<lparr>tooth_objects = draw_odontogram,
                                          item_fill = \<lambda>item. ''white''\<rparr>)
   \<and> apply_surface_status \<lparr>tooth_objects = draw_odontogram, item_fill = \<lambda>item. ''white''\<rparr>
        55 ''O'' ''Caries''
       = \<lparr>tooth_objects = draw_odontogram, item_fill = \<lambda>item. ''white''\<rparr>
   \<and> load_odontogram (Some 1)
        \<lparr>tooth_objects = draw_odontogram, item_fill = \<lambda>item. ''white''\<rparr>
        ([] @ \<lparr>o_patient_id = 1, o_tooth_number = 55, o_status = ''Caries'', o_face = ''O''\<rparr>
            # [\<lparr>o_patient_id = 1, o_tooth_number = 16, o_status = ''Caries'',
                 o_face = ''O''\<rparr>])
       = load_odontogram (Some 1)
        \<lparr>tooth_objects = draw_odontogram, item_fill = \<lambda>item. ''white''\<rparr>
        ([] @ [\<lparr>o_patient_id = 1, o_tooth_number = 16, o_status = ''Caries'',
                 o_face = ''O''\<rparr>])"
proof -
  let ?self = "\<lparr>tooth_objects = draw_odontogram, item_fill = \<lambda>item. ''white''\<rparr>"
  let ?row = "\<lparr>o_patient_id = 1, o_tooth_number = 55, o_status = ''Caries'', o_face = ''O''\<rparr>"
  have h: "(55::int) \<notin> fst ` set (tooth_objects ?self)"
    using tooth_55_not_drawn by simp
  have h': "o_tooth_number ?row \<notin> fst ` set (tooth_objects ?self)"
    using tooth_55_not_drawn by simp
  from unknown_tooth_ignored [of 55 ?self "''O''" "''Caries''" ?row "Some 1" "[]"] h h'
  show ?thesis by blast
qed

text \<open>
  Claim C6 as stated asks for an InvalidTooth error. There is none: on the chart as drawn,
  setting surface O of the primary tooth 55 to Caries returns with the chart unchanged,
  and in the single-file program the status of pieza 55, which is no pieza of the
  permanent scheme, reads as Sano.
\<close>

theorem invalid_tooth_no_error_counterexample:
  "(55::int) \<notin> fst ` set draw_odontogram
   \<and> apply_surface_status \<lparr>tooth_objects = draw_odontogram, item_fill = \<lambda>item. ''white''\<rparr>
        55 ''O'' ''Caries''
       = \<lparr>tooth_objects = draw_odontogram, item_fill = \<lambda>item. ''white''\<rparr>
   \<and> ''55'' \<in> set TEMPORAL_PIEZAS \<and> ''55'' \<notin> set ADULTO_PIEZAS
   \<and> get_status [] ''55'' ''O'' = ''Sano''"
proof -
  have "map_of draw_odontogram 55 = None"
    using tooth_55_not_drawn by (simp add: map_of_eq_None_iff)
  then show ?thesis
    using tooth_55_not_drawn
    by (simp add: apply_surface_status_def ADULTO_PIEZAS_def TEMPORAL_PIEZAS_def
        get_status_def dict_get_def)
qed

end
